theory Spec2Isabelle
  imports Complex_Main "HOL-Library.Monad_Syntax" "HOL-Library.AList" "HOL-Library.Char_ord"
    "HOL-Library.List_Lexorder"
begin

section \<open>The SP3 reader \<open>Sp3Format2Orbit::run\<close> (sp3Format2Orbit.cpp)\<close>

text \<open>
  The program reads SP3 orbit files line by line, keeps three maps from satellite
  identifier to epoch sequences (orbit, clock, covariance) and writes them at the end.
  The embedding follows \<open>run\<close> statement by statement: the body of the \<open>while\<close> loop is
  \<open>processLine\<close>, the loop is \<open>scan\<close>, the loop over the input files is \<open>readFiles\<close>, the
  output part is \<open>writeResults\<close>.

  \<^item> \<open>Double\<close> is modelled by \<open>real\<close>: rounding, infinities and NaN are outside the model.
    The literals \<open>1e3\<close>, \<open>1e-6\<close>, \<open>1e-3\<close>, \<open>1e-13\<close> and \<open>0.1\<close> are written \<open>10 ^ 3\<close>,
    \<open>1 / 10 ^ 6\<close>, \<open>1 / 10 ^ 3\<close>, \<open>1 / 10 ^ 13\<close> and \<open>1 / 10\<close>.
  \<^item> A C++ exception is the flow \<open>Throw\<close>; \<open>back()\<close> on an empty arc is the flow
    \<open>UndefinedBehaviour\<close>.
  \<^item> Classes and helpers the file includes from headers (vectors, rotations, string
    decoding, time conversion, file names) are not part of sp3Format2Orbit.cpp. The
    algebra of vectors and rotations is written out below; the decoders and the time and
    gravity collaborators are parameters (the record \<open>Env\<close>).
  \<^item> The input files are given by their lines; a file that cannot be opened is outside
    the model, and so is a failing write.
\<close>

subsection \<open>Vectors, rotations and tensors\<close>

type_synonym Time = real

text \<open>Modelled from the spec: \<open>Time()\<close>, the value of the local \<open>time\<close> before the first
  epoch header of a file (the class Time is declared in a header that is not in src/);
  no property below depends on which time it is.\<close>

definition defaultTime :: Time where
  "defaultTime = 0"

datatype Vector3d = Vector3d (vx: real) (vy: real) (vz: real)

text \<open>Modelled from the spec: the vector algebra of base/vector3d.h (not in src/):
  the default vector is zero, \<open>r()\<close> is the Euclidean length.\<close>

definition zeroVector :: Vector3d where
  "zeroVector = Vector3d 0 0 0"

definition scale :: "real \<Rightarrow> Vector3d \<Rightarrow> Vector3d" where
  "scale a v = Vector3d (a * vx v) (a * vy v) (a * vz v)"

definition vplus :: "Vector3d \<Rightarrow> Vector3d \<Rightarrow> Vector3d" where
  "vplus u v = Vector3d (vx u + vx v) (vy u + vy v) (vz u + vz v)"

definition vminus :: "Vector3d \<Rightarrow> Vector3d \<Rightarrow> Vector3d" where
  "vminus u v = Vector3d (vx u - vx v) (vy u - vy v) (vz u - vz v)"

definition inner :: "Vector3d \<Rightarrow> Vector3d \<Rightarrow> real" where
  "inner u v = vx u * vx v + vy u * vy v + vz u * vz v"

definition crossProduct :: "Vector3d \<Rightarrow> Vector3d \<Rightarrow> Vector3d" where
  "crossProduct u v =
     Vector3d (vy u * vz v - vz u * vy v) (vz u * vx v - vx u * vz v) (vx u * vy v - vy u * vx v)"

definition vector_r :: "Vector3d \<Rightarrow> real" where
  "vector_r v = sqrt ((vx v)\<^sup>2 + (vy v)\<^sup>2 + (vz v)\<^sup>2)"

text \<open>Modelled from the spec: a symmetric 3x3 tensor stored by its six independent
  components, in the order \<open>xx, yy, zz, xy, xz, yz\<close> that \<open>setData\<close> receives
  (base/tensor3d.h and the epoch classes of files/fileInstrument.h are not in src/).\<close>

datatype Tensor3d =
  Tensor3d (txx: real) (tyy: real) (tzz: real) (txy: real) (txz: real) (tyz: real)

definition setData :: "real list \<Rightarrow> Tensor3d" where
  "setData d = Tensor3d (d ! 0) (d ! 1) (d ! 2) (d ! 3) (d ! 4) (d ! 5)"

definition tensorAt :: "Tensor3d \<Rightarrow> nat \<Rightarrow> nat \<Rightarrow> real" where
  "tensorAt t i j =
     (if i = j then (if i = 0 then txx t else if i = 1 then tyy t else tzz t)
      else if i + j = 1 then txy t
      else if i + j = 2 then txz t
      else tyz t)"

definition tensorApply :: "Tensor3d \<Rightarrow> Vector3d \<Rightarrow> Vector3d" where
  "tensorApply t v =
     Vector3d (txx t * vx v + txy t * vy v + txz t * vz v)
              (txy t * vx v + tyy t * vy v + tyz t * vz v)
              (txz t * vx v + tyz t * vy v + tzz t * vz v)"

definition quadraticForm :: "Tensor3d \<Rightarrow> Vector3d \<Rightarrow> real" where
  "quadraticForm t v = inner v (tensorApply t v)"

definition positiveSemiDefinite :: "Tensor3d \<Rightarrow> bool" where
  "positiveSemiDefinite t = (\<forall>v. 0 \<le> quadraticForm t v)"

text \<open>Modelled from the spec: a rotation is its 3x3 matrix, given by rows
  (base/rotary3d.h is not in src/). The default rotation is the identity, \<open>inverse\<close> is the
  transpose, a vector is rotated by the matrix product and a tensor \<open>T\<close> to \<open>R T R\<^sup>T\<close>.\<close>

datatype Rotary3d = Rotary3d (row1: Vector3d) (row2: Vector3d) (row3: Vector3d)

definition identityRotary :: Rotary3d where
  "identityRotary = Rotary3d (Vector3d 1 0 0) (Vector3d 0 1 0) (Vector3d 0 0 1)"

definition inverse3d :: "Rotary3d \<Rightarrow> Rotary3d" where
  "inverse3d m =
     Rotary3d (Vector3d (vx (row1 m)) (vx (row2 m)) (vx (row3 m)))
              (Vector3d (vy (row1 m)) (vy (row2 m)) (vy (row3 m)))
              (Vector3d (vz (row1 m)) (vz (row2 m)) (vz (row3 m)))"

definition rotateVector :: "Rotary3d \<Rightarrow> Vector3d \<Rightarrow> Vector3d" where
  "rotateVector m v = Vector3d (inner (row1 m) v) (inner (row2 m) v) (inner (row3 m) v)"

definition rotateTensor :: "Rotary3d \<Rightarrow> Tensor3d \<Rightarrow> Tensor3d" where
  "rotateTensor m t =
     Tensor3d (inner (row1 m) (tensorApply t (row1 m)))
              (inner (row2 m) (tensorApply t (row2 m)))
              (inner (row3 m) (tensorApply t (row3 m)))
              (inner (row1 m) (tensorApply t (row2 m)))
              (inner (row1 m) (tensorApply t (row3 m)))
              (inner (row2 m) (tensorApply t (row3 m)))"

subsection \<open>Epochs, arcs and the maps of \<open>run\<close>\<close>

record Epoch =
  time :: Time

record OrbitEpoch = Epoch +
  position :: Vector3d
  velocity :: Vector3d
  acceleration :: Vector3d

text \<open>The field \<open>value\<close> of the source is \<open>miscValue\<close> here.\<close>

record MiscValueEpoch = Epoch +
  miscValue :: real

record Covariance3dEpoch = Epoch +
  covariance :: Tensor3d

type_synonym OrbitArc = "OrbitEpoch list"
type_synonym MiscValueArc = "MiscValueEpoch list"
type_synonym Covariance3dArc = "Covariance3dEpoch list"

text \<open>
  \<open>std::map<std::string, Arc>\<close> is an association list read through \<open>map_of\<close>. \<open>arcAt\<close> is
  the arc that \<open>m[k]\<close> refers to (the empty arc for a new key), \<open>push_back\<close> is
  \<open>m[k].push_back(e)\<close>, and \<open>keysOf\<close> lists the keys in the order a range-for loop over
  the map visits them (ascending, each once).
\<close>

type_synonym 'a arcs = "(string \<times> 'a list) list"

definition arcAt :: "'a arcs \<Rightarrow> string \<Rightarrow> 'a list" where
  "arcAt m k = (case map_of m k of None \<Rightarrow> [] | Some arc \<Rightarrow> arc)"

definition setArc :: "'a arcs \<Rightarrow> string \<Rightarrow> 'a list \<Rightarrow> 'a arcs" where
  "setArc m k arc = AList.update k arc m"

definition push_back :: "'a arcs \<Rightarrow> string \<Rightarrow> 'a \<Rightarrow> 'a arcs" where
  "push_back m k e = setArc m k (arcAt m k @ [e])"

definition keysOf :: "'a arcs \<Rightarrow> string list" where
  "keysOf m = sort (remdups (map fst m))"

subsection \<open>Collaborators, configuration and state\<close>

datatype TimeSystem = GPS | UTC | TAI

type_synonym FileName = string

record SphericalHarmonics =
  harmonicsR :: real
  harmonicsX :: "real list"

record EarthRotation =
  rotaryMatrix :: "Time \<Rightarrow> Rotary3d"
  rotaryAxis :: "Time \<Rightarrow> Vector3d"

text \<open>
  \<open>Env\<close> holds what \<open>run\<close> takes from outside the file: the helpers of the headers
  (\<open>String::toInt\<close>, \<open>String::toDouble\<close> with \<open>None\<close> for a thrown exception,
  \<open>date2time\<close>, \<open>timeUTC2GPS\<close>, \<open>seconds2time\<close>, the constant \<open>DELTA_TAI_GPS\<close>,
  \<open>FileName::appendBaseName\<close>) and the values \<open>readConfig\<close> delivers. \<open>date2time\<close> takes
  the integers as \<open>toInt\<close> returns them; the conversion to \<open>UInt\<close> is part of it.
\<close>

record Env =
  toInt :: "string \<Rightarrow> int option"
  toDouble :: "string \<Rightarrow> real option"
  date2time :: "int \<Rightarrow> int \<Rightarrow> int \<Rightarrow> int \<Rightarrow> int \<Rightarrow> real \<Rightarrow> Time"
  timeUTC2GPS :: "Time \<Rightarrow> Time"
  seconds2time :: "real \<Rightarrow> Time"
  DELTA_TAI_GPS :: real
  appendBaseName :: "FileName \<Rightarrow> string \<Rightarrow> FileName"
  fileNameOrbit :: FileName
  fileNameClock :: FileName
  fileNameCov :: FileName
  configIdentifier :: string
  earthRotation :: "EarthRotation option"
  sphericalHarmonics :: "Time \<Rightarrow> nat \<Rightarrow> nat \<Rightarrow> SphericalHarmonics"

datatype message =
    ReadFile FileName
  | UnknownTimeSystem string
  | ExceptionContinue
  | NoDataFound string
  | WriteOrbitData FileName
  | WriteClockData FileName
  | WriteCovarianceData FileName

datatype event =
    logStatus message
  | logWarning message
  | writeOrbit FileName OrbitArc
  | writeClock FileName MiscValueArc
  | writeCovariance FileName Covariance3dArc
  | printStatistics OrbitArc

text \<open>The variables of \<open>run\<close>: \<open>identifier\<close> is \<open>satelliteIdentifier\<close>, the local \<open>time\<close>
  is \<open>curTime\<close>, and \<open>events\<close> is the log together with the calls of
  \<open>InstrumentFile::write\<close> and \<open>Arc::printStatistics\<close>, in order.\<close>

record State =
  satelliteIdentifier :: string
  timeSystem :: TimeSystem
  curTime :: Time
  satId :: string
  rotation :: Rotary3d
  omega :: Vector3d
  cm2ceCorrection :: Vector3d
  orbits :: "OrbitEpoch arcs"
  clocks :: "MiscValueEpoch arcs"
  covs :: "Covariance3dEpoch arcs"
  events :: "event list"

datatype Flow =
    Proceed State
  | SkipNext State
  | Break State
  | Throw State
  | UndefinedBehaviour

fun andThen :: "Flow \<Rightarrow> (State \<Rightarrow> Flow) \<Rightarrow> Flow" where
  "andThen (Proceed st) f = f st"
| "andThen (SkipNext st) f = SkipNext st"
| "andThen (Break st) f = Break st"
| "andThen (Throw st) f = Throw st"
| "andThen UndefinedBehaviour f = UndefinedBehaviour"

subsection \<open>Decoding the columns of a line\<close>

text \<open>\<open>std::string::substr(pos, n)\<close> throws \<open>std::out_of_range\<close> when \<open>pos\<close> is beyond the
  end of the string, and otherwise returns at most \<open>n\<close> characters.\<close>

definition substr :: "string \<Rightarrow> nat \<Rightarrow> nat \<Rightarrow> string option" where
  "substr s pos n = (if length s < pos then None else Some (take n (drop pos s)))"

definition startsWith :: "string \<Rightarrow> string \<Rightarrow> bool" where
  "startsWith s p = (take (length p) s = p)"

definition getInt :: "Env \<Rightarrow> string \<Rightarrow> nat \<Rightarrow> nat \<Rightarrow> int option" where
  "getInt env line pos n = do { s \<leftarrow> substr line pos n; toInt env s }"

definition getDouble :: "Env \<Rightarrow> string \<Rightarrow> nat \<Rightarrow> nat \<Rightarrow> real option" where
  "getDouble env line pos n = do { s \<leftarrow> substr line pos n; toDouble env s }"

text \<open>The fields of an epoch header (year, month, day, hour, min, sec).\<close>

definition epochFields :: "Env \<Rightarrow> string \<Rightarrow> (int \<times> int \<times> int \<times> int \<times> int \<times> real) option" where
  "epochFields env line = do {
     year \<leftarrow> getInt env line 3 4;
     month \<leftarrow> getInt env line 8 2;
     day \<leftarrow> getInt env line 11 2;
     hour \<leftarrow> getInt env line 14 2;
     minute \<leftarrow> getInt env line 17 2;
     sec \<leftarrow> getDouble env line 20 11;
     Some (year, month, day, hour, minute, sec)
   }"

text \<open>The fields of a position line (x, y, z in km and the clock c in microseconds).\<close>

definition positionFields :: "Env \<Rightarrow> string \<Rightarrow> (real \<times> real \<times> real \<times> real) option" where
  "positionFields env line = do {
     x \<leftarrow> getDouble env line 4 14;
     y \<leftarrow> getDouble env line 18 14;
     z \<leftarrow> getDouble env line 32 14;
     c \<leftarrow> getDouble env line 46 14;
     Some (x, y, z, c)
   }"

text \<open>The fields of a covariance line (xx, yy, zz, xy, xz, yz).\<close>

definition covarianceFields ::
  "Env \<Rightarrow> string \<Rightarrow> (real \<times> real \<times> real \<times> real \<times> real \<times> real) option" where
  "covarianceFields env line = do {
     xx \<leftarrow> getDouble env line 4 4;
     yy \<leftarrow> getDouble env line 9 4;
     zz \<leftarrow> getDouble env line 14 4;
     xy \<leftarrow> getDouble env line 27 8;
     xz \<leftarrow> getDouble env line 36 8;
     yz \<leftarrow> getDouble env line 54 8;
     Some (xx, yy, zz, xy, xz, yz)
   }"

text \<open>The fields of a velocity line (x, y, z in dm/s).\<close>

definition velocityFields :: "Env \<Rightarrow> string \<Rightarrow> (real \<times> real \<times> real) option" where
  "velocityFields env line = do {
     x \<leftarrow> getDouble env line 4 14;
     y \<leftarrow> getDouble env line 18 14;
     z \<leftarrow> getDouble env line 32 14;
     Some (x, y, z)
   }"

text \<open>What \<open>line.substr(1,3)\<close> returns for a line that is not empty: the satellite
  identifier of a position or velocity line.\<close>

definition lineSatId :: "string \<Rightarrow> string" where
  "lineSatId line = take 3 (drop 1 line)"

subsection \<open>The body of the loop over the lines\<close>

text \<open>Lines 108-113: satellite list and orbit accuracy lines.\<close>

definition satelliteListLine :: "Env \<Rightarrow> State \<Rightarrow> string \<Rightarrow> Flow" where
  "satelliteListLine env st line =
     (if satelliteIdentifier st = [] then
        (case getInt env line 3 3 of
           None \<Rightarrow> Throw st
         | Some n \<Rightarrow>
             if 0 < n then
               (case substr line 9 3 of
                  None \<Rightarrow> Throw st
                | Some s \<Rightarrow> Proceed (st\<lparr>satelliteIdentifier := s\<rparr>))
             else Proceed st)
      else Proceed st)"

text \<open>Lines 115-123: the time system definition; the second \<open>%c\<close> line is read and dropped.\<close>

definition timeSystemLine :: "State \<Rightarrow> string \<Rightarrow> Flow" where
  "timeSystemLine st line =
     (case substr line 9 3 of
        None \<Rightarrow> Throw st
      | Some tag \<Rightarrow>
          SkipNext
            (if tag = ''GPS'' then st\<lparr>timeSystem := GPS\<rparr>
             else if tag = ''UTC'' then st\<lparr>timeSystem := UTC\<rparr>
             else if tag = ''TAI'' then st\<lparr>timeSystem := TAI\<rparr>
             else st\<lparr>events := events st @ [logWarning (UnknownTimeSystem tag)]\<rparr>))"

text \<open>Lines 135-139: the epoch time in GPS time.\<close>

definition epochTime ::
  "Env \<Rightarrow> TimeSystem \<Rightarrow> int \<times> int \<times> int \<times> int \<times> int \<times> real \<Rightarrow> Time" where
  "epochTime env ts f =
     (case f of (year, month, day, hour, minute, sec) \<Rightarrow>
        let t = date2time env year month day hour minute sec in
        if ts = UTC then timeUTC2GPS env t
        else if ts = TAI then t - seconds2time env (DELTA_TAI_GPS env)
        else t)"

text \<open>Lines 141-143: the correction from the degree 1 coefficients at a time.\<close>

definition cm2ceAt :: "Env \<Rightarrow> Time \<Rightarrow> Vector3d" where
  "cm2ceAt env t =
     (let harmonics = sphericalHarmonics env t 1 1;
          coeff = harmonicsX harmonics
      in scale (sqrt 3 * harmonicsR harmonics) (Vector3d (coeff ! 2) (coeff ! 3) (coeff ! 1)))"

text \<open>Lines 127-150: an epoch header.\<close>

definition epochBlock :: "Env \<Rightarrow> State \<Rightarrow> string \<Rightarrow> Flow" where
  "epochBlock env st line =
     (if startsWith line ''* '' then
        (case epochFields env line of
           None \<Rightarrow> Throw st
         | Some f \<Rightarrow>
             let t = epochTime env (timeSystem st) f;
                 st1 = st\<lparr>curTime := t, cm2ceCorrection := cm2ceAt env t\<rparr>
             in Proceed
                  (case earthRotation env of
                     None \<Rightarrow> st1
                   | Some er \<Rightarrow>
                       st1\<lparr>rotation := inverse3d (rotaryMatrix er t), omega := rotaryAxis er t\<rparr>))
      else Proceed st)"

text \<open>Lines 162-168 and 169-175: the two independent stores of a position line.\<close>

definition storePosition :: "real \<Rightarrow> real \<Rightarrow> real \<Rightarrow> State \<Rightarrow> State" where
  "storePosition x y z st =
     (let pos = scale (10 ^ 3) (Vector3d x y z) in
      if vector_r pos \<noteq> 0 then
        st\<lparr>orbits := push_back (orbits st) (satId st)
              \<lparr>time = curTime st,
               position = rotateVector (rotation st)
                            (vminus (scale (10 ^ 3) (Vector3d x y z)) (cm2ceCorrection st)),
               velocity = zeroVector, acceleration = zeroVector\<rparr>\<rparr>
      else st)"

definition storeClock :: "real \<Rightarrow> State \<Rightarrow> State" where
  "storeClock c st =
     (if c < 999999 then
        st\<lparr>clocks := push_back (clocks st) (satId st)
              \<lparr>time = curTime st, miscValue = 1 / 10 ^ 6 * c\<rparr>\<rparr>
      else st)"

text \<open>Lines 154-176: a position line.\<close>

definition positionBlock :: "Env \<Rightarrow> State \<Rightarrow> string \<Rightarrow> Flow" where
  "positionBlock env st line =
     (if startsWith line ''P'' then
        (case substr line 1 3 of
           None \<Rightarrow> Throw st
         | Some sid \<Rightarrow>
             (case positionFields env line of
                None \<Rightarrow> Throw (st\<lparr>satId := sid\<rparr>)
              | Some (x, y, z, c) \<Rightarrow>
                  Proceed (storeClock c (storePosition x y z (st\<lparr>satId := sid\<rparr>)))))
      else Proceed st)"

text \<open>Line 191: the six numbers handed to \<open>setData\<close>. The squares and products are exact
  here, where the source rounds each of them to a \<open>Double\<close>.\<close>

definition covarianceData :: "real \<Rightarrow> real \<Rightarrow> real \<Rightarrow> real \<Rightarrow> real \<Rightarrow> real \<Rightarrow> real list" where
  "covarianceData xx yy zz xy xz yz =
     [(1 / 10 ^ 3 * xx)\<^sup>2, (1 / 10 ^ 3 * yy)\<^sup>2, (1 / 10 ^ 3 * zz)\<^sup>2,
      1 / 10 ^ 13 * xy * xx * yy, 1 / 10 ^ 13 * xz * xx * zz, 1 / 10 ^ 13 * yz * yy * zz]"

text \<open>Lines 180-194: a position covariance line.\<close>

definition covarianceBlock :: "Env \<Rightarrow> State \<Rightarrow> string \<Rightarrow> Flow" where
  "covarianceBlock env st line =
     (if startsWith line ''EP'' then
        (case covarianceFields env line of
           None \<Rightarrow> Throw st
         | Some (xx, yy, zz, xy, xz, yz) \<Rightarrow>
             Proceed
               (st\<lparr>covs := push_back (covs st) (satId st)
                     \<lparr>time = curTime st,
                      covariance = rotateTensor (rotation st)
                                     (setData (covarianceData xx yy zz xy xz yz))\<rparr>\<rparr>))
      else Proceed st)"

text \<open>Lines 205-206: the velocity goes into the last epoch of the satellite's arc.\<close>

definition setLastVelocity :: "OrbitArc \<Rightarrow> Vector3d \<Rightarrow> OrbitArc" where
  "setLastVelocity arc v = butlast arc @ [(last arc)\<lparr>velocity := v\<rparr>]"

text \<open>Lines 198-207: a velocity line.\<close>

definition velocityBlock :: "Env \<Rightarrow> State \<Rightarrow> string \<Rightarrow> Flow" where
  "velocityBlock env st line =
     (if startsWith line ''V'' then
        (case substr line 1 3 of
           None \<Rightarrow> Throw st
         | Some sid \<Rightarrow>
             (case velocityFields env line of
                None \<Rightarrow> Throw (st\<lparr>satId := sid\<rparr>)
              | Some (x, y, z) \<Rightarrow>
                  let vel = scale (1 / 10) (Vector3d x y z);
                      arc = arcAt (orbits st) sid
                  in if vector_r vel \<noteq> 0 then
                       (if arc = [] then UndefinedBehaviour
                        else Proceed
                          (st\<lparr>satId := sid,
                              orbits := setArc (orbits st) sid
                                (setLastVelocity arc
                                   (vplus (rotateVector (rotation st) vel)
                                      (crossProduct (omega st) (position (last arc)))))\<rparr>))
                     else Proceed (st\<lparr>satId := sid\<rparr>)))
      else Proceed st)"

text \<open>Lines 98-213: one pass through the body of the \<open>while\<close> loop.\<close>

definition processLine :: "Env \<Rightarrow> State \<Rightarrow> string \<Rightarrow> Flow" where
  "processLine env st line =
     (if startsWith line ''#'' \<or> startsWith line ''/*'' \<or> startsWith line ''%f''
         \<or> startsWith line ''%i''
      then Proceed st
      else if startsWith line ''+'' then satelliteListLine env st line
      else if startsWith line ''%c'' then timeSystemLine st line
      else
        andThen (epochBlock env st line) (\<lambda>st1.
        andThen (positionBlock env st1 line) (\<lambda>st2.
        andThen (covarianceBlock env st2 line) (\<lambda>st3.
        andThen (velocityBlock env st3 line) (\<lambda>st4.
        if startsWith line ''EOF'' then Break st4 else Proceed st4)))))"

subsection \<open>The loops over the lines and over the files\<close>

datatype FileResult = Completed State | Aborted State | Undefined

text \<open>Lines 98-213: the \<open>while\<close> loop over the lines still to be read.\<close>

fun scan :: "Env \<Rightarrow> State \<Rightarrow> string list \<Rightarrow> FileResult" where
  "scan env st [] = Completed st"
| "scan env st (line # rest) =
     (case processLine env st line of
        Proceed st' \<Rightarrow> scan env st' rest
      | SkipNext st' \<Rightarrow> (case rest of [] \<Rightarrow> Completed st' | skipped # rest' \<Rightarrow> scan env st' rest')
      | Break st' \<Rightarrow> Completed st'
      | Throw st' \<Rightarrow> Aborted st'
      | UndefinedBehaviour \<Rightarrow> Undefined)"

text \<open>Lines 88-97: the variables declared inside the loop over the files start afresh
  for every file.\<close>

definition beginFile :: "State \<Rightarrow> FileName \<Rightarrow> State" where
  "beginFile st name =
     st\<lparr>events := events st @ [logStatus (ReadFile name)],
        timeSystem := GPS, curTime := defaultTime, satId := [],
        rotation := identityRotary, omega := zeroVector, cm2ceCorrection := zeroVector\<rparr>"

text \<open>Lines 84-220: the loop over the input files; an exception ends it.\<close>

fun readFiles :: "Env \<Rightarrow> State \<Rightarrow> (FileName \<times> string list) list \<Rightarrow> State option" where
  "readFiles env st [] = Some st"
| "readFiles env st ((name, ls) # files) =
     (case scan env (beginFile st name) ls of
        Completed st' \<Rightarrow> readFiles env st' files
      | Aborted st' \<Rightarrow> Some (st'\<lparr>events := events st' @ [logWarning ExceptionContinue]\<rparr>)
      | Undefined \<Rightarrow> None)"

subsection \<open>Writing the results\<close>

text \<open>Lines 228-248: the three loops of the case \<open>identifier == "<all>"\<close>.\<close>

definition writeAllOrbits :: "Env \<Rightarrow> OrbitEpoch arcs \<Rightarrow> event list" where
  "writeAllOrbits env m =
     (if fileNameOrbit env \<noteq> [] then
        concat (map (\<lambda>k. if arcAt m k \<noteq> [] then
                           [logStatus (WriteOrbitData (appendBaseName env (fileNameOrbit env) (''.'' @ k))),
                            writeOrbit (appendBaseName env (fileNameOrbit env) (''.'' @ k)) (arcAt m k)]
                         else [])
                    (keysOf m))
      else [])"

definition writeAllClocks :: "Env \<Rightarrow> MiscValueEpoch arcs \<Rightarrow> event list" where
  "writeAllClocks env m =
     (if fileNameClock env \<noteq> [] then
        concat (map (\<lambda>k. if arcAt m k \<noteq> [] then
                           [logStatus (WriteClockData (appendBaseName env (fileNameClock env) (''.'' @ k))),
                            writeClock (appendBaseName env (fileNameClock env) (''.'' @ k)) (arcAt m k)]
                         else [])
                    (keysOf m))
      else [])"

definition writeAllCovs :: "Env \<Rightarrow> Covariance3dEpoch arcs \<Rightarrow> event list" where
  "writeAllCovs env m =
     (if fileNameCov env \<noteq> [] then
        concat (map (\<lambda>k. if arcAt m k \<noteq> [] then
                           [logStatus (WriteCovarianceData (appendBaseName env (fileNameCov env) (''.'' @ k))),
                            writeCovariance (appendBaseName env (fileNameCov env) (''.'' @ k)) (arcAt m k)]
                         else [])
                    (keysOf m))
      else [])"

text \<open>Lines 253-271: the case of a single satellite.\<close>

definition writeSingle :: "Env \<Rightarrow> State \<Rightarrow> event list" where
  "writeSingle env st =
     (let ident = satelliteIdentifier st in
      (if arcAt (orbits st) ident = [] then [logWarning (NoDataFound ident)] else [])
      @ (if fileNameOrbit env \<noteq> [] \<and> arcAt (orbits st) ident \<noteq> [] then
           [logStatus (WriteOrbitData (fileNameOrbit env)),
            writeOrbit (fileNameOrbit env) (arcAt (orbits st) ident),
            printStatistics (arcAt (orbits st) ident)]
         else [])
      @ (if fileNameClock env \<noteq> [] \<and> arcAt (clocks st) ident \<noteq> [] then
           [logStatus (WriteClockData (fileNameClock env)),
            writeClock (fileNameClock env) (arcAt (clocks st) ident)]
         else [])
      @ (if fileNameCov env \<noteq> [] \<and> arcAt (covs st) ident \<noteq> [] then
           [logStatus (WriteCovarianceData (fileNameCov env)),
            writeCovariance (fileNameCov env) (arcAt (covs st) ident)]
         else []))"

text \<open>Lines 226-272: the events of the output part.\<close>

definition writeResults :: "Env \<Rightarrow> State \<Rightarrow> event list" where
  "writeResults env st =
     (if satelliteIdentifier st = ''<all>'' then
        writeAllOrbits env (orbits st) @ writeAllClocks env (clocks st) @ writeAllCovs env (covs st)
      else writeSingle env st)"

text \<open>Lines 81-83: the state before the first file.\<close>

definition initialState :: "Env \<Rightarrow> State" where
  "initialState env =
     \<lparr>satelliteIdentifier = configIdentifier env, timeSystem = GPS, curTime = defaultTime,
      satId = [], rotation = identityRotary, omega = zeroVector, cm2ceCorrection = zeroVector,
      orbits = [], clocks = [], covs = [], events = []\<rparr>"

text \<open>\<open>run\<close>: everything logged and written, or \<open>None\<close> when the behaviour is undefined.\<close>

definition run :: "Env \<Rightarrow> (FileName \<times> string list) list \<Rightarrow> event list option" where
  "run env files =
     (case readFiles env (initialState env) files of
        None \<Rightarrow> None
      | Some st \<Rightarrow> Some (events st @ writeResults env st))"

subsection \<open>Reading a run of lines\<close>

text \<open>
  \<open>linesRead env st ls = Some st'\<close>: the loop, started in \<open>st\<close>, reads exactly the lines
  \<open>ls\<close> (it handles each, or drops it as the second \<open>%c\<close> line) and then is in \<open>st'\<close>,
  about to read the next line. It is \<open>None\<close> when the loop ends within \<open>ls\<close> or takes one
  more line than \<open>ls\<close> has. The theorems use it to speak of the lines before a given one.
\<close>

fun linesRead :: "Env \<Rightarrow> State \<Rightarrow> string list \<Rightarrow> State option" where
  "linesRead env st [] = Some st"
| "linesRead env st (line # rest) =
     (case processLine env st line of
        Proceed st' \<Rightarrow> linesRead env st' rest
      | SkipNext st' \<Rightarrow> (case rest of [] \<Rightarrow> None | skipped # rest' \<Rightarrow> linesRead env st' rest')
      | Break st' \<Rightarrow> None
      | Throw st' \<Rightarrow> None
      | UndefinedBehaviour \<Rightarrow> None)"

text \<open>\<open>filesCompleted env st files = Some st'\<close>: every file of \<open>files\<close> is read to its end
  or to its \<open>EOF\<close> line, without an exception, and leaves the state \<open>st'\<close>.\<close>

fun filesCompleted :: "Env \<Rightarrow> State \<Rightarrow> (FileName \<times> string list) list \<Rightarrow> State option" where
  "filesCompleted env st [] = Some st"
| "filesCompleted env st ((name, ls) # files) =
     (case scan env (beginFile st name) ls of
        Completed st' \<Rightarrow> filesCompleted env st' files
      | Aborted st' \<Rightarrow> None
      | Undefined \<Rightarrow> None)"

text \<open>What the output part reads of a state: the identifier and the three maps.\<close>

definition records ::
  "State \<Rightarrow> string \<times> OrbitEpoch arcs \<times> MiscValueEpoch arcs \<times> Covariance3dEpoch arcs" where
  "records st = (satelliteIdentifier st, orbits st, clocks st, covs st)"

text \<open>A numeric field of the line cannot be decoded where the loop body decodes it
  (\<open>substr\<close> or the decoder throws): the count of a satellite list line while no
  identifier is set, or a field of an epoch header, position, covariance or velocity
  line.\<close>

definition decodingFails :: "Env \<Rightarrow> State \<Rightarrow> string \<Rightarrow> bool" where
  "decodingFails env st line =
     ((startsWith line ''+'' \<and> satelliteIdentifier st = [] \<and> getInt env line 3 3 = None)
      \<or> (startsWith line ''* '' \<and> epochFields env line = None)
      \<or> (startsWith line ''P'' \<and> positionFields env line = None)
      \<or> (startsWith line ''EP'' \<and> covarianceFields env line = None)
      \<or> (startsWith line ''V'' \<and> velocityFields env line = None))"

text \<open>The state a flow carries, used to state what a line leaves unchanged.\<close>

fun flowState :: "Flow \<Rightarrow> State option" where
  "flowState (Proceed st) = Some st"
| "flowState (SkipNext st) = Some st"
| "flowState (Break st) = Some st"
| "flowState (Throw st) = Some st"
| "flowState UndefinedBehaviour = None"

subsection \<open>Sample collaborators and lines for the examples\<close>

text \<open>
  The examples need decoders that can be evaluated. \<open>sampleToInt\<close> reads blanks, an
  optional minus sign and decimal digits, and fails on anything else; \<open>sampleToDouble\<close>
  reads the same numbers as reals. They stand in for \<open>String::toInt\<close> and
  \<open>String::toDouble\<close> in the examples only; no theorem about the program depends on them.
\<close>

definition digitOf :: "char \<Rightarrow> nat option" where
  "digitOf = map_of (zip ''0123456789'' [0, 1, 2, 3, 4, 5, 6, 7, 8, 9])"

fun digitsValue :: "nat \<Rightarrow> string \<Rightarrow> nat option" where
  "digitsValue acc [] = Some acc"
| "digitsValue acc (c # cs) =
     (case digitOf c of None \<Rightarrow> None | Some d \<Rightarrow> digitsValue (10 * acc + d) cs)"

definition sampleToInt :: "string \<Rightarrow> int option" where
  "sampleToInt s =
     (case dropWhile (\<lambda>c. c = CHR '' '') s of
        [] \<Rightarrow> None
      | c # cs \<Rightarrow>
          if c = CHR ''-'' then
            (if cs = [] then None else map_option (\<lambda>n. - int n) (digitsValue 0 cs))
          else map_option int (digitsValue 0 (c # cs)))"

definition sampleToDouble :: "string \<Rightarrow> real option" where
  "sampleToDouble s = map_option real_of_int (sampleToInt s)"

definition sampleHarmonics :: "Time \<Rightarrow> nat \<Rightarrow> nat \<Rightarrow> SphericalHarmonics" where
  "sampleHarmonics t maxDegree minDegree = \<lparr>harmonicsR = 2, harmonicsX = [0, 1, 2, 3]\<rparr>"

definition sampleEnv :: Env where
  "sampleEnv =
     \<lparr>toInt = sampleToInt, toDouble = sampleToDouble,
      date2time = (\<lambda>year month day hour minute sec. real_of_int day * 86400 + sec),
      timeUTC2GPS = (\<lambda>t. t + 18), seconds2time = (\<lambda>s. s), DELTA_TAI_GPS = 19,
      appendBaseName = (\<lambda>name text. name @ text),
      fileNameOrbit = ''orbit'', fileNameClock = ''clock'', fileNameCov = ''cov'',
      configIdentifier = [], earthRotation = None,
      sphericalHarmonics = sampleHarmonics\<rparr>"

text \<open>The state after the sample epoch header is read in the initial state, and a
  state with a rotation by a quarter turn about the z axis, an angular velocity and one
  orbit epoch of satellite L01.\<close>

definition sampleEpochState :: State where
  "sampleEpochState =
     (initialState sampleEnv)\<lparr>curTime := 172805,
        cm2ceCorrection := Vector3d (4 * sqrt 3) (6 * sqrt 3) (2 * sqrt 3)\<rparr>"

definition quarterTurn :: Rotary3d where
  "quarterTurn = Rotary3d (Vector3d 0 (- 1) 0) (Vector3d 1 0 0) (Vector3d 0 0 1)"

definition sampleOrbitState :: State where
  "sampleOrbitState =
     (initialState sampleEnv)\<lparr>rotation := quarterTurn, omega := Vector3d 0 0 1,
        orbits := [(''L01'', [\<lparr>time = 0, position = Vector3d 1 0 0, velocity = zeroVector,
                               acceleration = zeroVector\<rparr>])]\<rparr>"

text \<open>Sample lines: an epoch header, position lines (with and without position and
  clock), velocity lines, covariance lines, time system and satellite list lines (one
  with the count -1), and a position line cut off within its second field.\<close>

definition sampleEpochLine :: string where
  "sampleEpochLine = ''*  2020  1  2  0  0           5''"

definition samplePositionLine :: string where
  "samplePositionLine = ''PL01             3             4             0             7''"

definition sampleNoPositionLine :: string where
  "sampleNoPositionLine = ''PL02             0             0             0             7''"

definition sampleNoClockLine :: string where
  "sampleNoClockLine = ''PL01             3             4             0        999999''"

definition sampleVelocityLine :: string where
  "sampleVelocityLine = ''VL01            10            20             0''"

definition sampleCovarianceLine :: string where
  "sampleCovarianceLine =
     ''EP     2    3    4          5000000  5000000           5000000''"

definition sampleCorrelatedLine :: string where
  "sampleCorrelatedLine =
     ''EP     1    1    1          9000000  9000000          -9000000''"

definition sampleLostVelocityLine :: string where
  "sampleLostVelocityLine = ''VL02            10            20             0''"

definition sampleUtcLine :: string where
  "sampleUtcLine = ''%c L  cc UTC ccc''"

definition sampleTaiLine :: string where
  "sampleTaiLine = ''%c L  cc TAI ccc''"

definition sampleUnknownLine :: string where
  "sampleUnknownLine = ''%c L  cc XYZ ccc''"

definition sampleSecondLine :: string where
  "sampleSecondLine = ''%c cc cc ccc ccc''"

definition sampleSatelliteListLine :: string where
  "sampleSatelliteListLine = ''+    2   L01L02''"

definition sampleNegativeCountLine :: string where
  "sampleNegativeCountLine = ''+   -1   L01L02''"

definition sampleOtherPositionLine :: string where
  "sampleOtherPositionLine = ''PL02             5             6             7             8''"

definition sampleStillLine :: string where
  "sampleStillLine = ''VL01             0             0             0''"

definition sampleBrokenLine :: string where
  "sampleBrokenLine = ''PL01             3        4''"

text \<open>A file with the satellites L01 and L02, and the state after it is read, for an
  identifier that the file does not change.\<close>

definition sampleTwoSatellites :: "string list" where
  "sampleTwoSatellites =
     [sampleSatelliteListLine, sampleEpochLine, samplePositionLine, sampleOtherPositionLine]"

definition sampleTwoState :: "string \<Rightarrow> State" where
  "sampleTwoState ident =
     \<lparr>satelliteIdentifier = ident, timeSystem = GPS, curTime = 172805,
      satId = ''L02'', rotation = identityRotary, omega = zeroVector,
      cm2ceCorrection = Vector3d (4 * sqrt 3) (6 * sqrt 3) (2 * sqrt 3),
      orbits =
        [(''L01'', [\<lparr>time = 172805,
                      position = Vector3d (3000 - 4 * sqrt 3) (4000 - 6 * sqrt 3) (- (2 * sqrt 3)),
                      velocity = zeroVector, acceleration = zeroVector\<rparr>]),
         (''L02'', [\<lparr>time = 172805,
                      position = Vector3d (5000 - 4 * sqrt 3) (6000 - 6 * sqrt 3)
                                   (7000 - 2 * sqrt 3),
                      velocity = zeroVector, acceleration = zeroVector\<rparr>])],
      clocks = [(''L01'', [\<lparr>time = 172805, miscValue = 7 / 10 ^ 6\<rparr>]),
                (''L02'', [\<lparr>time = 172805, miscValue = 8 / 10 ^ 6\<rparr>])],
      covs = [], events = [logStatus (ReadFile ''in.sp3'')]\<rparr>"

section \<open>Properties\<close>

subsection \<open>Maps of arcs\<close>

lemma arcAt_setArc: "arcAt (setArc m k arc) k' = (if k' = k then arc else arcAt m k')"
  by (simp add: arcAt_def setArc_def update_conv')

lemma arcAt_push_back:
  "arcAt (push_back m k e) k' = (if k' = k then arcAt m k @ [e] else arcAt m k')"
  by (simp add: push_back_def arcAt_setArc)

lemma arcAt_empty: "arcAt [] k = []"
  by (simp add: arcAt_def)

subsection \<open>Vectors\<close>

lemma vector_r_zero_iff: "vector_r v = 0 \<longleftrightarrow> v = zeroVector"
  by (cases v) (simp add: vector_r_def zeroVector_def add_nonneg_eq_0_iff)

lemma scale_zero_iff: "a \<noteq> 0 \<Longrightarrow> scale a v = zeroVector \<longleftrightarrow> v = zeroVector"
  by (cases v) (simp add: scale_def zeroVector_def)

lemma vector_r_scale: "a \<noteq> 0 \<Longrightarrow> vector_r (scale a v) = 0 \<longleftrightarrow> vector_r v = 0"
  by (simp add: vector_r_zero_iff scale_zero_iff)

lemma rotate_identity: "rotateVector identityRotary v = v"
  by (cases v) (simp add: rotateVector_def identityRotary_def inner_def)

lemma vminus_zero: "vminus v zeroVector = v"
  by (cases v) (simp add: vminus_def zeroVector_def)

subsection \<open>Which block handles a line\<close>

lemma startsWith1: "startsWith s [a] \<longleftrightarrow> (\<exists>t. s = a # t)"
  by (cases s) (auto simp: startsWith_def)

lemma startsWith2: "startsWith s [a, b] \<longleftrightarrow> (\<exists>t. s = a # b # t)"
  by (cases s; cases "tl s") (auto simp: startsWith_def)

lemma startsWith3: "startsWith s [a, b, c] \<longleftrightarrow> (\<exists>t. s = a # b # c # t)"
  by (cases s; cases "tl s"; cases "tl (tl s)") (auto simp: startsWith_def)

lemma andThen_Proceed: "andThen flow Proceed = flow"
  by (cases flow) simp_all

lemma epochBlock_other: "\<not> startsWith line ''* '' \<Longrightarrow> epochBlock env st line = Proceed st"
  by (simp add: epochBlock_def)

lemma positionBlock_other: "\<not> startsWith line ''P'' \<Longrightarrow> positionBlock env st line = Proceed st"
  by (simp add: positionBlock_def)

lemma covarianceBlock_other:
  "\<not> startsWith line ''EP'' \<Longrightarrow> covarianceBlock env st line = Proceed st"
  by (simp add: covarianceBlock_def)

lemma velocityBlock_other: "\<not> startsWith line ''V'' \<Longrightarrow> velocityBlock env st line = Proceed st"
  by (simp add: velocityBlock_def)

lemma positionBlock_flow:
  "(\<exists>st'. positionBlock env st line = Proceed st') \<or> (\<exists>st'. positionBlock env st line = Throw st')"
  by (simp add: positionBlock_def split: option.splits)

lemma covarianceBlock_flow:
  "(\<exists>st'. covarianceBlock env st line = Proceed st')
   \<or> (\<exists>st'. covarianceBlock env st line = Throw st')"
  by (simp add: covarianceBlock_def split: option.splits)

lemma epochBlock_flow:
  "(\<exists>st'. epochBlock env st line = Proceed st') \<or> (\<exists>st'. epochBlock env st line = Throw st')"
  by (simp add: epochBlock_def Let_def split: option.splits)

lemma processLine_position:
  assumes "startsWith line ''P''"
  shows "processLine env st line = positionBlock env st line"
proof -
  obtain t where l: "line = CHR ''P'' # t"
    using assms by (auto simp: startsWith1)
  have other: "\<not> startsWith line ''#''" "\<not> startsWith line ''/*''" "\<not> startsWith line ''%f''"
    "\<not> startsWith line ''%i''" "\<not> startsWith line ''+''" "\<not> startsWith line ''%c''"
    "\<not> startsWith line ''* ''" "\<not> startsWith line ''EP''" "\<not> startsWith line ''V''"
    "\<not> startsWith line ''EOF''"
    by (simp_all add: l startsWith_def)
  from positionBlock_flow [of env st line] show ?thesis
    by (auto simp: processLine_def other epochBlock_other covarianceBlock_other
        velocityBlock_other)
qed

lemma processLine_covariance:
  assumes "startsWith line ''EP''"
  shows "processLine env st line = covarianceBlock env st line"
proof -
  obtain t where l: "line = CHR ''E'' # CHR ''P'' # t"
    using assms by (auto simp: startsWith2)
  have other: "\<not> startsWith line ''#''" "\<not> startsWith line ''/*''" "\<not> startsWith line ''%f''"
    "\<not> startsWith line ''%i''" "\<not> startsWith line ''+''" "\<not> startsWith line ''%c''"
    "\<not> startsWith line ''* ''" "\<not> startsWith line ''P''" "\<not> startsWith line ''V''"
    "\<not> startsWith line ''EOF''"
    by (simp_all add: l startsWith_def)
  from covarianceBlock_flow [of env st line] show ?thesis
    by (auto simp: processLine_def other epochBlock_other positionBlock_other
        velocityBlock_other)
qed

lemma processLine_velocity:
  assumes "startsWith line ''V''"
  shows "processLine env st line = velocityBlock env st line"
proof -
  obtain t where l: "line = CHR ''V'' # t"
    using assms by (auto simp: startsWith1)
  have other: "\<not> startsWith line ''#''" "\<not> startsWith line ''/*''" "\<not> startsWith line ''%f''"
    "\<not> startsWith line ''%i''" "\<not> startsWith line ''+''" "\<not> startsWith line ''%c''"
    "\<not> startsWith line ''* ''" "\<not> startsWith line ''P''" "\<not> startsWith line ''EP''"
    "\<not> startsWith line ''EOF''"
    by (simp_all add: l startsWith_def)
  show ?thesis
    by (simp add: processLine_def other epochBlock_other positionBlock_other
        covarianceBlock_other andThen_Proceed)
qed

lemma processLine_epoch:
  assumes "startsWith line ''* ''"
  shows "processLine env st line = epochBlock env st line"
proof -
  obtain t where l: "line = CHR ''*'' # CHR '' '' # t"
    using assms by (auto simp: startsWith2)
  have other: "\<not> startsWith line ''#''" "\<not> startsWith line ''/*''" "\<not> startsWith line ''%f''"
    "\<not> startsWith line ''%i''" "\<not> startsWith line ''+''" "\<not> startsWith line ''%c''"
    "\<not> startsWith line ''P''" "\<not> startsWith line ''EP''" "\<not> startsWith line ''V''"
    "\<not> startsWith line ''EOF''"
    by (simp_all add: l startsWith_def)
  from epochBlock_flow [of env st line] show ?thesis
    by (auto simp: processLine_def other positionBlock_other covarianceBlock_other
        velocityBlock_other)
qed

lemma processLine_satelliteList:
  assumes "startsWith line ''+''"
  shows "processLine env st line = satelliteListLine env st line"
proof -
  obtain t where l: "line = CHR ''+'' # t"
    using assms by (auto simp: startsWith1)
  have other: "\<not> startsWith line ''#''" "\<not> startsWith line ''/*''" "\<not> startsWith line ''%f''"
    "\<not> startsWith line ''%i''"
    by (simp_all add: l startsWith_def)
  show ?thesis
    using assms by (simp add: processLine_def other)
qed

lemma processLine_timeSystem:
  assumes "startsWith line ''%c''"
  shows "processLine env st line = timeSystemLine st line"
proof -
  obtain t where l: "line = CHR ''%'' # CHR ''c'' # t"
    using assms by (auto simp: startsWith2)
  have other: "\<not> startsWith line ''#''" "\<not> startsWith line ''/*''" "\<not> startsWith line ''%f''"
    "\<not> startsWith line ''%i''" "\<not> startsWith line ''+''"
    by (simp_all add: l startsWith_def)
  show ?thesis
    using assms by (simp add: processLine_def other)
qed

lemma processLine_EOF:
  assumes "startsWith line ''EOF''"
  shows "processLine env st line = Break st"
proof -
  obtain t where l: "line = CHR ''E'' # CHR ''O'' # CHR ''F'' # t"
    using assms by (auto simp: startsWith3)
  have other: "\<not> startsWith line ''#''" "\<not> startsWith line ''/*''" "\<not> startsWith line ''%f''"
    "\<not> startsWith line ''%i''" "\<not> startsWith line ''+''" "\<not> startsWith line ''%c''"
    "\<not> startsWith line ''* ''" "\<not> startsWith line ''P''" "\<not> startsWith line ''EP''"
    "\<not> startsWith line ''V''"
    by (simp_all add: l startsWith_def)
  show ?thesis
    using assms by (simp add: processLine_def other epochBlock_other positionBlock_other
        covarianceBlock_other velocityBlock_other)
qed

subsection \<open>The transformation context changes at epoch headers only\<close>

lemma epochBlock_fields:
  assumes "startsWith line ''* ''" and "epochFields env line = Some f"
  shows "processLine env st line =
    Proceed (case earthRotation env of
               None \<Rightarrow> st\<lparr>curTime := epochTime env (timeSystem st) f,
                          cm2ceCorrection := cm2ceAt env (epochTime env (timeSystem st) f)\<rparr>
             | Some er \<Rightarrow>
                 st\<lparr>curTime := epochTime env (timeSystem st) f,
                    cm2ceCorrection := cm2ceAt env (epochTime env (timeSystem st) f),
                    rotation := inverse3d (rotaryMatrix er (epochTime env (timeSystem st) f)),
                    omega := rotaryAxis er (epochTime env (timeSystem st) f)\<rparr>)"
  using assms by (simp add: processLine_epoch epochBlock_def Let_def split: option.splits)

lemma satelliteListLine_context:
  "flowState (satelliteListLine env st line) = Some st' \<Longrightarrow>
   curTime st' = curTime st \<and> cm2ceCorrection st' = cm2ceCorrection st
   \<and> rotation st' = rotation st \<and> omega st' = omega st"
  by (auto simp: satelliteListLine_def split: if_splits option.splits)

lemma timeSystemLine_context:
  "flowState (timeSystemLine st line) = Some st' \<Longrightarrow>
   curTime st' = curTime st \<and> cm2ceCorrection st' = cm2ceCorrection st
   \<and> rotation st' = rotation st \<and> omega st' = omega st"
  by (auto simp: timeSystemLine_def split: if_splits option.splits)

lemma positionBlock_context:
  "flowState (positionBlock env st line) = Some st' \<Longrightarrow>
   curTime st' = curTime st \<and> cm2ceCorrection st' = cm2ceCorrection st
   \<and> rotation st' = rotation st \<and> omega st' = omega st"
  by (auto simp: positionBlock_def storeClock_def storePosition_def Let_def
      split: if_splits option.splits)

lemma covarianceBlock_context:
  "flowState (covarianceBlock env st line) = Some st' \<Longrightarrow>
   curTime st' = curTime st \<and> cm2ceCorrection st' = cm2ceCorrection st
   \<and> rotation st' = rotation st \<and> omega st' = omega st"
  by (auto simp: covarianceBlock_def split: if_splits option.splits)

lemma velocityBlock_context:
  "flowState (velocityBlock env st line) = Some st' \<Longrightarrow>
   curTime st' = curTime st \<and> cm2ceCorrection st' = cm2ceCorrection st
   \<and> rotation st' = rotation st \<and> omega st' = omega st"
  by (auto simp: velocityBlock_def Let_def split: if_splits option.splits)

text \<open>A line is handled by exactly one part of the loop body.\<close>

lemma processLine_cases:
  "processLine env st line = Proceed st
   \<or> processLine env st line = Break st
   \<or> (startsWith line ''+'' \<and> processLine env st line = satelliteListLine env st line)
   \<or> (startsWith line ''%c'' \<and> processLine env st line = timeSystemLine st line)
   \<or> (startsWith line ''* '' \<and> processLine env st line = epochBlock env st line)
   \<or> (startsWith line ''P'' \<and> processLine env st line = positionBlock env st line)
   \<or> (startsWith line ''EP'' \<and> processLine env st line = covarianceBlock env st line)
   \<or> (startsWith line ''V'' \<and> processLine env st line = velocityBlock env st line)"
proof -
  consider (epoch) "startsWith line ''* ''" | (position) "startsWith line ''P''"
    | (covariance) "startsWith line ''EP''" | (velocity) "startsWith line ''V''"
    | (other) "\<not> startsWith line ''* ''" "\<not> startsWith line ''P''"
        "\<not> startsWith line ''EP''" "\<not> startsWith line ''V''"
    by blast
  then show ?thesis
  proof cases
    case epoch
    then show ?thesis by (simp add: processLine_epoch)
  next
    case position
    then show ?thesis by (simp add: processLine_position)
  next
    case covariance
    then show ?thesis by (simp add: processLine_covariance)
  next
    case velocity
    then show ?thesis by (simp add: processLine_velocity)
  next
    case other
    then show ?thesis
      by (simp add: processLine_def epochBlock_other positionBlock_other covarianceBlock_other
          velocityBlock_other)
  qed
qed

lemma processLine_context:
  assumes "\<not> startsWith line ''* ''" and "flowState (processLine env st line) = Some st'"
  shows "curTime st' = curTime st \<and> cm2ceCorrection st' = cm2ceCorrection st
   \<and> rotation st' = rotation st \<and> omega st' = omega st"
  using processLine_cases [of env st line] assms
    satelliteListLine_context [of env st line st'] timeSystemLine_context [of st line st']
    positionBlock_context [of env st line st'] covarianceBlock_context [of env st line st']
    velocityBlock_context [of env st line st']
  by (elim disjE) auto

lemma linesRead_context:
  "linesRead env st ls = Some st' \<Longrightarrow> \<forall>l \<in> set ls. \<not> startsWith l ''* '' \<Longrightarrow>
   curTime st' = curTime st \<and> cm2ceCorrection st' = cm2ceCorrection st
   \<and> rotation st' = rotation st \<and> omega st' = omega st"
proof (induction env st ls rule: linesRead.induct)
  case (1 env st)
  then show ?case by simp
next
  case (2 env st line rest)
  show ?case
  proof (cases "processLine env st line")
    case (Proceed s)
    with 2 processLine_context [of line env st s] show ?thesis by simp
  next
    case (SkipNext s)
    with 2 processLine_context [of line env st s] show ?thesis
      by (cases rest) auto
  qed (use 2 in simp_all)
qed

subsection \<open>Position lines\<close>

lemma substr_satId: "startsWith line [a] \<Longrightarrow> substr line 1 3 = Some (lineSatId line)"
  by (auto simp: startsWith1 substr_def lineSatId_def)

lemma positionBlock_fields:
  assumes "startsWith line ''P''" and "positionFields env line = Some (x, y, z, c)"
  shows "processLine env st line =
           Proceed (storeClock c (storePosition x y z (st\<lparr>satId := lineSatId line\<rparr>)))"
  using assms by (simp add: processLine_position positionBlock_def substr_satId del: One_nat_def)

lemma samplePosition_fields: "positionFields sampleEnv samplePositionLine = Some (3, 4, 0, 7)"
  by (simp add: samplePositionLine_def positionFields_def getDouble_def substr_def sampleEnv_def
      sampleToDouble_def sampleToInt_def digitOf_def)

lemma samplePosition_starts: "startsWith samplePositionLine ''P''"
  by (simp add: samplePositionLine_def startsWith_def)

lemma samplePosition_id: "lineSatId samplePositionLine = ''L01''"
  by (simp add: samplePositionLine_def lineSatId_def)

lemma storeClock_frame:
  "orbits (storeClock c st) = orbits st \<and> covs (storeClock c st) = covs st
   \<and> rotation (storeClock c st) = rotation st \<and> omega (storeClock c st) = omega st
   \<and> cm2ceCorrection (storeClock c st) = cm2ceCorrection st
   \<and> curTime (storeClock c st) = curTime st \<and> satId (storeClock c st) = satId st"
  by (simp add: storeClock_def)

lemma storePosition_frame:
  "clocks (storePosition x y z st) = clocks st \<and> covs (storePosition x y z st) = covs st
   \<and> rotation (storePosition x y z st) = rotation st \<and> omega (storePosition x y z st) = omega st
   \<and> cm2ceCorrection (storePosition x y z st) = cm2ceCorrection st
   \<and> curTime (storePosition x y z st) = curTime st \<and> satId (storePosition x y z st) = satId st"
  by (simp add: storePosition_def)

lemma position_stored:
  assumes "startsWith pline ''P''" and "positionFields env pline = Some (px, py, pz, pc)"
    and "vector_r (Vector3d px py pz) \<noteq> 0"
    and "processLine env st0 pline = Proceed st"
  shows "arcAt (orbits st) (lineSatId pline)
           = arcAt (orbits st0) (lineSatId pline)
             @ [\<lparr>time = curTime st0,
                 position = rotateVector (rotation st0)
                   (vminus (scale (10 ^ 3) (Vector3d px py pz)) (cm2ceCorrection st0)),
                 velocity = zeroVector, acceleration = zeroVector\<rparr>]"
    and "rotation st = rotation st0" and "cm2ceCorrection st = cm2ceCorrection st0"
    and "omega st = omega st0" and "curTime st = curTime st0"
proof -
  have st: "st = storeClock pc (storePosition px py pz (st0\<lparr>satId := lineSatId pline\<rparr>))"
    using positionBlock_fields [OF assms(1,2), of st0] assms(4) by simp
  show "arcAt (orbits st) (lineSatId pline)
           = arcAt (orbits st0) (lineSatId pline)
             @ [\<lparr>time = curTime st0,
                 position = rotateVector (rotation st0)
                   (vminus (scale (10 ^ 3) (Vector3d px py pz)) (cm2ceCorrection st0)),
                 velocity = zeroVector, acceleration = zeroVector\<rparr>]"
    using assms(3)
    by (simp add: st storeClock_frame) (simp add: storePosition_def arcAt_push_back vector_r_scale)
  show "rotation st = rotation st0" "cm2ceCorrection st = cm2ceCorrection st0"
    "omega st = omega st0" "curTime st = curTime st0"
    by (simp_all add: st storeClock_frame storePosition_frame)
qed

lemma sampleEpoch_fields: "epochFields sampleEnv sampleEpochLine = Some (2020, 1, 2, 0, 0, 5)"
  by (simp add: sampleEpochLine_def epochFields_def getDouble_def getInt_def substr_def
      sampleEnv_def sampleToDouble_def sampleToInt_def digitOf_def)

lemma sampleEpoch_starts: "startsWith sampleEpochLine ''* ''"
  by (simp add: sampleEpochLine_def startsWith_def)

lemma sampleEpoch_read:
  "linesRead sampleEnv (initialState sampleEnv) [sampleEpochLine] = Some sampleEpochState"
  by (simp add: epochBlock_fields [OF sampleEpoch_starts sampleEpoch_fields] sampleEpochState_def)
    (simp add: sampleEnv_def initialState_def epochTime_def cm2ceAt_def sampleHarmonics_def
      scale_def)

text \<open>
  Claim C2. A position line whose four fields decode (x, y, z in km, clock c) lets the
  loop go on, and for its satellite identifier: the orbit arc gains one epoch when the
  raw vector (x, y, z) has nonzero length and the orbit map is unchanged when the length
  is zero; independently, the clock arc gains the epoch with value \<open>1e-6 * c\<close> at the
  current time when \<open>c < 999999\<close>, and the clock map is unchanged when \<open>c \<ge> 999999\<close>.
  The arcs of all other identifiers stay as they are.
\<close>

theorem position_line_appends:
  assumes "startsWith line ''P''" and "positionFields env line = Some (x, y, z, c)"
  shows "\<exists>st'. processLine env st line = Proceed st'
    \<and> (vector_r (Vector3d x y z) \<noteq> 0 \<longrightarrow>
         (\<exists>e. arcAt (orbits st') (lineSatId line) = arcAt (orbits st) (lineSatId line) @ [e]))
    \<and> (vector_r (Vector3d x y z) = 0 \<longrightarrow> orbits st' = orbits st)
    \<and> (c < 999999 \<longrightarrow>
         arcAt (clocks st') (lineSatId line)
           = arcAt (clocks st) (lineSatId line)
             @ [\<lparr>time = curTime st, miscValue = 1 / 10 ^ 6 * c\<rparr>])
    \<and> (999999 \<le> c \<longrightarrow> clocks st' = clocks st)
    \<and> (\<forall>k. k \<noteq> lineSatId line \<longrightarrow>
           arcAt (orbits st') k = arcAt (orbits st) k \<and> arcAt (clocks st') k = arcAt (clocks st) k)"
  unfolding positionBlock_fields [OF assms]
  by (simp add: storeClock_def storePosition_def arcAt_push_back vector_r_scale)

text \<open>The sample position line of satellite L01, with position (3, 4, 0) km and clock 7,
  read in the initial state: one orbit epoch and the clock epoch \<open>7e-6\<close>.\<close>

theorem position_line_appends_witness:
  "\<exists>st'. processLine sampleEnv (initialState sampleEnv) samplePositionLine = Proceed st'
     \<and> length (arcAt (orbits st') ''L01'') = 1
     \<and> arcAt (clocks st') ''L01'' = [\<lparr>time = defaultTime, miscValue = 7 / 10 ^ 6\<rparr>]"
  using position_line_appends
    [OF samplePosition_starts samplePosition_fields, of "initialState sampleEnv"]
  by (auto simp add: samplePosition_id vector_r_zero_iff zeroVector_def initialState_def
      arcAt_empty)

text \<open>
  Claim C1. For a position line whose raw vector (x, y, z) has nonzero length, the epoch
  appended to the satellite's orbit arc has the current time and the position
  \<open>rotation (1000 (x, y, z) - cm2ceCorrection)\<close>. With the identity rotation and a zero
  correction that position is \<open>1000 (x, y, z)\<close>. When the state was reached by reading an
  epoch header and then lines that are not epoch headers, the current time is the time
  of that header and the correction is \<open>sqrt 3 * R * (c11, s11, c10)\<close> for the
  coefficients \<open>[c00, c10, c11, s11]\<close> and the radius \<open>R\<close> of the spherical harmonics at
  that time; and when an earth rotation is configured, the rotation is the inverse of its
  matrix at that time.
\<close>

theorem position_value:
  assumes "startsWith line ''P''" and "positionFields env line = Some (x, y, z, c)"
    and "vector_r (Vector3d x y z) \<noteq> 0"
  shows "\<exists>st'. processLine env st line = Proceed st'
    \<and> arcAt (orbits st') (lineSatId line)
        = arcAt (orbits st) (lineSatId line)
          @ [\<lparr>time = curTime st,
              position = rotateVector (rotation st)
                (vminus (scale (10 ^ 3) (Vector3d x y z)) (cm2ceCorrection st)),
              velocity = zeroVector, acceleration = zeroVector\<rparr>]
    \<and> (rotation st = identityRotary \<and> cm2ceCorrection st = zeroVector \<longrightarrow>
         position (last (arcAt (orbits st') (lineSatId line))) = scale (10 ^ 3) (Vector3d x y z))
    \<and> (\<forall>st0 header f between c00 c10 c11 s11.
         startsWith header ''* '' \<and> epochFields env header = Some f
         \<and> (\<forall>l \<in> set between. \<not> startsWith l ''* '')
         \<and> linesRead env st0 (header # between) = Some st
         \<and> harmonicsX (sphericalHarmonics env (epochTime env (timeSystem st0) f) 1 1)
             = [c00, c10, c11, s11]
         \<longrightarrow> curTime st = epochTime env (timeSystem st0) f
           \<and> cm2ceCorrection st
               = scale (sqrt 3 * harmonicsR (sphericalHarmonics env (curTime st) 1 1))
                   (Vector3d c11 s11 c10)
           \<and> (\<forall>er. earthRotation env = Some er \<longrightarrow>
                  rotation st = inverse3d (rotaryMatrix er (curTime st))))"
proof -
  let ?st' = "storeClock c (storePosition x y z (st\<lparr>satId := lineSatId line\<rparr>))"
  have step: "processLine env st line = Proceed ?st'"
    by (rule positionBlock_fields [OF assms(1,2)])
  have appended: "arcAt (orbits ?st') (lineSatId line)
        = arcAt (orbits st) (lineSatId line)
          @ [\<lparr>time = curTime st,
              position = rotateVector (rotation st)
                (vminus (scale (10 ^ 3) (Vector3d x y z)) (cm2ceCorrection st)),
              velocity = zeroVector, acceleration = zeroVector\<rparr>]"
    using assms(3)
    by (simp add: storeClock_def storePosition_def arcAt_push_back vector_r_scale)
  have plain: "rotation st = identityRotary \<and> cm2ceCorrection st = zeroVector \<longrightarrow>
         position (last (arcAt (orbits ?st') (lineSatId line))) = scale (10 ^ 3) (Vector3d x y z)"
    by (simp add: appended rotate_identity vminus_zero)
  have header: "curTime st = epochTime env (timeSystem st0) f
           \<and> cm2ceCorrection st
               = scale (sqrt 3 * harmonicsR (sphericalHarmonics env (curTime st) 1 1))
                   (Vector3d c11 s11 c10)
           \<and> (\<forall>er. earthRotation env = Some er \<longrightarrow>
                  rotation st = inverse3d (rotaryMatrix er (curTime st)))"
    if h: "startsWith header ''* ''" "epochFields env header = Some f"
      and b: "\<forall>l \<in> set between. \<not> startsWith l ''* ''"
      and r: "linesRead env st0 (header # between) = Some st"
      and x: "harmonicsX (sphericalHarmonics env (epochTime env (timeSystem st0) f) 1 1)
             = [c00, c10, c11, s11]"
    for st0 header f between c00 c10 c11 s11
  proof -
    obtain st1 where st1: "processLine env st0 header = Proceed st1"
      and t1: "curTime st1 = epochTime env (timeSystem st0) f"
      and c1: "cm2ceCorrection st1 = cm2ceAt env (epochTime env (timeSystem st0) f)"
      and r1: "\<forall>er. earthRotation env = Some er \<longrightarrow>
                  rotation st1 = inverse3d (rotaryMatrix er (epochTime env (timeSystem st0) f))"
      using epochBlock_fields [OF h, of st0] by (cases "earthRotation env") auto
    from r st1 have "linesRead env st1 between = Some st" by simp
    from linesRead_context [OF this b] t1 c1 r1 x show ?thesis
      by (simp add: cm2ceAt_def Let_def)
  qed
  from step appended plain header show ?thesis by blast
qed

text \<open>The sample position line read after the sample epoch header (correction
  \<open>2 sqrt 3 (2, 3, 1)\<close>, identity rotation) and read in the initial state.\<close>

theorem position_value_witness:
  "(\<exists>st'. processLine sampleEnv sampleEpochState samplePositionLine = Proceed st'
      \<and> arcAt (orbits st') ''L01''
          = [\<lparr>time = 172805,
              position = Vector3d (3000 - 4 * sqrt 3) (4000 - 6 * sqrt 3) (- (2 * sqrt 3)),
              velocity = zeroVector, acceleration = zeroVector\<rparr>])
   \<and> (\<exists>st'. processLine sampleEnv (initialState sampleEnv) samplePositionLine = Proceed st'
      \<and> position (last (arcAt (orbits st') ''L01'')) = Vector3d 3000 4000 0)
   \<and> linesRead sampleEnv (initialState sampleEnv) [sampleEpochLine] = Some sampleEpochState
   \<and> cm2ceCorrection sampleEpochState = scale (sqrt 3 * 2) (Vector3d 2 3 1)"
proof -
  have nonzero: "vector_r (Vector3d 3 4 0) \<noteq> 0"
    by (simp add: vector_r_zero_iff zeroVector_def)
  note after = position_value [OF samplePosition_starts samplePosition_fields nonzero,
      of sampleEpochState]
  have after_header: "\<exists>st'. processLine sampleEnv sampleEpochState samplePositionLine = Proceed st'
      \<and> arcAt (orbits st') ''L01''
          = [\<lparr>time = 172805,
              position = Vector3d (3000 - 4 * sqrt 3) (4000 - 6 * sqrt 3) (- (2 * sqrt 3)),
              velocity = zeroVector, acceleration = zeroVector\<rparr>]"
    using after
    by (auto simp: samplePosition_id sampleEpochState_def initialState_def arcAt_empty
        rotate_identity vminus_def scale_def)
  have harmonics: "harmonicsX (sphericalHarmonics sampleEnv
      (epochTime sampleEnv (timeSystem (initialState sampleEnv)) (2020, 1, 2, 0, 0, 5)) 1 1)
      = [0, 1, 2, 3]"
    by (simp add: sampleEnv_def sampleHarmonics_def)
  from after have
    "\<forall>st0 header f between c00 c10 c11 s11.
         startsWith header ''* '' \<and> epochFields sampleEnv header = Some f
         \<and> (\<forall>l \<in> set between. \<not> startsWith l ''* '')
         \<and> linesRead sampleEnv st0 (header # between) = Some sampleEpochState
         \<and> harmonicsX (sphericalHarmonics sampleEnv (epochTime sampleEnv (timeSystem st0) f) 1 1)
             = [c00, c10, c11, s11]
         \<longrightarrow> curTime sampleEpochState = epochTime sampleEnv (timeSystem st0) f
           \<and> cm2ceCorrection sampleEpochState
               = scale (sqrt 3 * harmonicsR (sphericalHarmonics sampleEnv
                                              (curTime sampleEpochState) 1 1))
                   (Vector3d c11 s11 c10)
           \<and> (\<forall>er. earthRotation sampleEnv = Some er \<longrightarrow>
                  rotation sampleEpochState = inverse3d (rotaryMatrix er (curTime sampleEpochState)))"
    by blast
  from this [rule_format, of sampleEpochLine "(2020, 1, 2, 0, 0, 5)" "[]" "initialState sampleEnv"
      0 1 2 3]
    sampleEpoch_starts sampleEpoch_fields sampleEpoch_read harmonics
  have correction: "cm2ceCorrection sampleEpochState = scale (sqrt 3 * 2) (Vector3d 2 3 1)"
    by (simp add: sampleEnv_def sampleHarmonics_def)
  have at_start: "\<exists>st'. processLine sampleEnv (initialState sampleEnv) samplePositionLine = Proceed st'
      \<and> position (last (arcAt (orbits st') ''L01'')) = Vector3d 3000 4000 0"
    using position_value [OF samplePosition_starts samplePosition_fields nonzero,
        of "initialState sampleEnv"]
    by (auto simp: samplePosition_id initialState_def scale_def)
  from after_header at_start sampleEpoch_read correction show ?thesis by blast
qed

subsection \<open>Velocity lines\<close>

lemma velocityBlock_fields:
  assumes "startsWith line ''V''" and "velocityFields env line = Some (x, y, z)"
  shows "processLine env st line =
    (if vector_r (Vector3d x y z) \<noteq> 0 then
       (if arcAt (orbits st) (lineSatId line) = [] then UndefinedBehaviour
        else Proceed
          (st\<lparr>satId := lineSatId line,
              orbits := setArc (orbits st) (lineSatId line)
                (setLastVelocity (arcAt (orbits st) (lineSatId line))
                   (vplus (rotateVector (rotation st) (scale (1 / 10) (Vector3d x y z)))
                      (crossProduct (omega st)
                         (position (last (arcAt (orbits st) (lineSatId line)))))))\<rparr>))
     else Proceed (st\<lparr>satId := lineSatId line\<rparr>))"
  using assms
  by (simp add: processLine_velocity velocityBlock_def substr_satId vector_r_scale Let_def
      del: One_nat_def)

lemma sampleVelocity_fields: "velocityFields sampleEnv sampleVelocityLine = Some (10, 20, 0)"
  by (simp add: sampleVelocityLine_def velocityFields_def getDouble_def substr_def sampleEnv_def
      sampleToDouble_def sampleToInt_def digitOf_def)

lemma sampleVelocity_starts: "startsWith sampleVelocityLine ''V''"
  by (simp add: sampleVelocityLine_def startsWith_def)

lemma sampleVelocity_id: "lineSatId sampleVelocityLine = ''L01''"
  by (simp add: sampleVelocityLine_def lineSatId_def)

lemma sampleStill_fields: "velocityFields sampleEnv sampleStillLine = Some (0, 0, 0)"
  by (simp add: sampleStillLine_def velocityFields_def getDouble_def substr_def sampleEnv_def
      sampleToDouble_def sampleToInt_def digitOf_def)

lemma sampleStill_starts: "startsWith sampleStillLine ''V''"
  by (simp add: sampleStillLine_def startsWith_def)

lemma sampleStill_id: "lineSatId sampleStillLine = ''L01''"
  by (simp add: sampleStillLine_def lineSatId_def)

lemma sampleOrbit_arc:
  "arcAt (orbits sampleOrbitState) ''L01''
     = [\<lparr>time = 0, position = Vector3d 1 0 0, velocity = zeroVector, acceleration = zeroVector\<rparr>]"
  by (simp add: sampleOrbitState_def arcAt_def)

text \<open>
  Claim C3. For a velocity line whose three fields decode (x, y, z in dm/s): when the
  raw vector has zero length, only the current satellite identifier changes, so no
  velocity is written; when it has nonzero length and the satellite's orbit arc is not
  empty, the velocity of the last epoch of that arc becomes
  \<open>rotation (0.1 (x, y, z)) + omega \<times> position\<close>, with the position stored in that epoch;
  the rest of the arc, the other arcs, the clocks and the covariances are unchanged.
  Right after a position line of the same satellite with nonzero length, the stored
  position is the rotated and corrected one and the velocity of that epoch is still
  the zero vector.
\<close>

theorem velocity_line_sets_last:
  assumes "startsWith line ''V''" and "velocityFields env line = Some (x, y, z)"
  shows "(vector_r (Vector3d x y z) = 0 \<longrightarrow>
            processLine env st line = Proceed (st\<lparr>satId := lineSatId line\<rparr>))
    \<and> (vector_r (Vector3d x y z) \<noteq> 0 \<and> arcAt (orbits st) (lineSatId line) \<noteq> [] \<longrightarrow>
         (\<exists>st'. processLine env st line = Proceed st'
            \<and> arcAt (orbits st') (lineSatId line)
                = butlast (arcAt (orbits st) (lineSatId line))
                  @ [(last (arcAt (orbits st) (lineSatId line)))
                       \<lparr>velocity :=
                          vplus (rotateVector (rotation st) (scale (1 / 10) (Vector3d x y z)))
                            (crossProduct (omega st)
                               (position (last (arcAt (orbits st) (lineSatId line)))))\<rparr>]
            \<and> (\<forall>k. k \<noteq> lineSatId line \<longrightarrow> arcAt (orbits st') k = arcAt (orbits st) k)
            \<and> clocks st' = clocks st \<and> covs st' = covs st))
    \<and> (\<forall>st0 pline px py pz pc.
          startsWith pline ''P'' \<and> positionFields env pline = Some (px, py, pz, pc)
          \<and> vector_r (Vector3d px py pz) \<noteq> 0 \<and> lineSatId pline = lineSatId line
          \<and> processLine env st0 pline = Proceed st
          \<longrightarrow> arcAt (orbits st) (lineSatId line) \<noteq> []
            \<and> position (last (arcAt (orbits st) (lineSatId line)))
                = rotateVector (rotation st)
                    (vminus (scale (10 ^ 3) (Vector3d px py pz)) (cm2ceCorrection st))
            \<and> velocity (last (arcAt (orbits st) (lineSatId line))) = zeroVector)"
proof -
  have still: "vector_r (Vector3d x y z) = 0 \<longrightarrow>
            processLine env st line = Proceed (st\<lparr>satId := lineSatId line\<rparr>)"
    by (simp add: velocityBlock_fields [OF assms])
  have moving: "vector_r (Vector3d x y z) \<noteq> 0 \<and> arcAt (orbits st) (lineSatId line) \<noteq> [] \<longrightarrow>
         (\<exists>st'. processLine env st line = Proceed st'
            \<and> arcAt (orbits st') (lineSatId line)
                = butlast (arcAt (orbits st) (lineSatId line))
                  @ [(last (arcAt (orbits st) (lineSatId line)))
                       \<lparr>velocity :=
                          vplus (rotateVector (rotation st) (scale (1 / 10) (Vector3d x y z)))
                            (crossProduct (omega st)
                               (position (last (arcAt (orbits st) (lineSatId line)))))\<rparr>]
            \<and> (\<forall>k. k \<noteq> lineSatId line \<longrightarrow> arcAt (orbits st') k = arcAt (orbits st) k)
            \<and> clocks st' = clocks st \<and> covs st' = covs st)"
    by (simp add: velocityBlock_fields [OF assms] arcAt_setArc setLastVelocity_def)
  have stored: "arcAt (orbits st) (lineSatId line) \<noteq> []
            \<and> position (last (arcAt (orbits st) (lineSatId line)))
                = rotateVector (rotation st)
                    (vminus (scale (10 ^ 3) (Vector3d px py pz)) (cm2ceCorrection st))
            \<and> velocity (last (arcAt (orbits st) (lineSatId line))) = zeroVector"
    if "startsWith pline ''P''" "positionFields env pline = Some (px, py, pz, pc)"
      "vector_r (Vector3d px py pz) \<noteq> 0" "lineSatId pline = lineSatId line"
      "processLine env st0 pline = Proceed st"
    for st0 pline px py pz pc
    using position_stored [OF that(1,2,3,5)] that(4) by simp
  from still moving stored show ?thesis by blast
qed

text \<open>A state with a quarter turn, angular velocity (0, 0, 1) and the position (1, 0, 0)
  stored for L01: the zero velocity line changes nothing but the current identifier,
  the line with (10, 20, 0) dm/s stores \<open>(-2, 1, 0) + (0, 1, 0)\<close>.\<close>

theorem velocity_line_sets_last_witness:
  "processLine sampleEnv sampleOrbitState sampleStillLine
     = Proceed (sampleOrbitState\<lparr>satId := ''L01''\<rparr>)
   \<and> (\<exists>st'. processLine sampleEnv sampleOrbitState sampleVelocityLine = Proceed st'
        \<and> arcAt (orbits st') ''L01''
            = [\<lparr>time = 0, position = Vector3d 1 0 0, velocity = Vector3d (- 2) 2 0,
                acceleration = zeroVector\<rparr>])"
proof -
  have still: "processLine sampleEnv sampleOrbitState sampleStillLine
     = Proceed (sampleOrbitState\<lparr>satId := ''L01''\<rparr>)"
    using velocity_line_sets_last [OF sampleStill_starts sampleStill_fields, of sampleOrbitState]
    by (simp add: sampleStill_id vector_r_zero_iff zeroVector_def)
  have moving: "\<exists>st'. processLine sampleEnv sampleOrbitState sampleVelocityLine = Proceed st'
        \<and> arcAt (orbits st') ''L01''
            = [\<lparr>time = 0, position = Vector3d 1 0 0, velocity = Vector3d (- 2) 2 0,
                acceleration = zeroVector\<rparr>]"
    using velocity_line_sets_last [OF sampleVelocity_starts sampleVelocity_fields,
        of sampleOrbitState]
    by (auto simp: sampleVelocity_id sampleOrbit_arc vector_r_zero_iff zeroVector_def)
      (simp add: sampleOrbitState_def quarterTurn_def rotateVector_def scale_def inner_def
        crossProduct_def vplus_def)
  from still moving show ?thesis by blast
qed

lemma satelliteListLine_defined: "satelliteListLine env st line \<noteq> UndefinedBehaviour"
  by (simp add: satelliteListLine_def split: option.splits)

lemma timeSystemLine_defined: "timeSystemLine st line \<noteq> UndefinedBehaviour"
  by (simp add: timeSystemLine_def split: option.splits)

lemma epochBlock_defined: "epochBlock env st line \<noteq> UndefinedBehaviour"
  using epochBlock_flow [of env st line] by auto

lemma positionBlock_defined: "positionBlock env st line \<noteq> UndefinedBehaviour"
  using positionBlock_flow [of env st line] by auto

lemma covarianceBlock_defined: "covarianceBlock env st line \<noteq> UndefinedBehaviour"
  using covarianceBlock_flow [of env st line] by auto

lemma velocityBlock_undefined:
  "velocityBlock env st line = UndefinedBehaviour \<Longrightarrow>
   startsWith line ''V'' \<and> arcAt (orbits st) (lineSatId line) = []
   \<and> (\<exists>x y z. velocityFields env line = Some (x, y, z) \<and> vector_r (Vector3d x y z) \<noteq> 0)"
  by (cases "startsWith line ''V''")
    (auto simp: velocityBlock_def substr_satId Let_def vector_r_scale
      simp del: One_nat_def split: option.splits if_splits)

lemma processLine_undefined:
  assumes "processLine env st line = UndefinedBehaviour"
  shows "startsWith line ''V'' \<and> arcAt (orbits st) (lineSatId line) = []
   \<and> (\<exists>x y z. velocityFields env line = Some (x, y, z) \<and> vector_r (Vector3d x y z) \<noteq> 0)"
  using processLine_cases [of env st line] assms
    satelliteListLine_defined [of env st line] timeSystemLine_defined [of st line]
    epochBlock_defined [of env st line] positionBlock_defined [of env st line]
    covarianceBlock_defined [of env st line] velocityBlock_undefined [of env st line]
  by (elim disjE) auto

lemma sampleNoPosition_fields:
  "positionFields sampleEnv sampleNoPositionLine = Some (0, 0, 0, 7)"
  by (simp add: sampleNoPositionLine_def positionFields_def getDouble_def substr_def
      sampleEnv_def sampleToDouble_def sampleToInt_def digitOf_def)

lemma sampleNoPosition_starts: "startsWith sampleNoPositionLine ''P''"
  by (simp add: sampleNoPositionLine_def startsWith_def)

lemma sampleNoPosition_id: "lineSatId sampleNoPositionLine = ''L02''"
  by (simp add: sampleNoPositionLine_def lineSatId_def)

lemma sampleLostVelocity_fields:
  "velocityFields sampleEnv sampleLostVelocityLine = Some (10, 20, 0)"
  by (simp add: sampleLostVelocityLine_def velocityFields_def getDouble_def substr_def
      sampleEnv_def sampleToDouble_def sampleToInt_def digitOf_def)

lemma sampleLostVelocity_starts: "startsWith sampleLostVelocityLine ''V''"
  by (simp add: sampleLostVelocityLine_def startsWith_def)

lemma sampleLostVelocity_id: "lineSatId sampleLostVelocityLine = ''L02''"
  by (simp add: sampleLostVelocityLine_def lineSatId_def)

text \<open>
  Claim C4. The velocity part reads the last epoch of the satellite's orbit arc with no
  check that the arc has one. For a velocity line with nonzero length: when the arc of
  its satellite is not empty the line is handled and the loop goes on, never with
  undefined behaviour; when the arc is empty, \<open>back()\<close> is called on an empty arc, which
  is undefined behaviour of the line and of the whole scan. No other line and no other
  state leads to undefined behaviour.
\<close>

theorem velocity_needs_position:
  assumes "startsWith line ''V''" and "velocityFields env line = Some (x, y, z)"
    and "vector_r (Vector3d x y z) \<noteq> 0"
  shows "(arcAt (orbits st) (lineSatId line) \<noteq> [] \<longrightarrow>
            (\<exists>st'. processLine env st line = Proceed st')
            \<and> processLine env st line \<noteq> UndefinedBehaviour)
    \<and> (arcAt (orbits st) (lineSatId line) = [] \<longrightarrow>
            processLine env st line = UndefinedBehaviour
            \<and> scan env st (line # rest) = Undefined)
    \<and> (\<forall>st0 other. processLine env st0 other = UndefinedBehaviour \<longrightarrow>
            startsWith other ''V'' \<and> arcAt (orbits st0) (lineSatId other) = [])"
  using processLine_undefined
  by (simp add: velocityBlock_fields [OF assms(1,2)] assms(3))

text \<open>The velocity line of L01 in a state where L01 has an orbit epoch and in the
  initial state, and a file in which the position of L02 is missing (zero vector) before
  the velocity line of L02.\<close>

theorem velocity_needs_position_witness:
  "(\<exists>st'. processLine sampleEnv sampleOrbitState sampleVelocityLine = Proceed st')
   \<and> processLine sampleEnv (initialState sampleEnv) sampleVelocityLine = UndefinedBehaviour
   \<and> run sampleEnv [(''in.sp3'', [sampleNoPositionLine, sampleLostVelocityLine])] = None"
proof -
  have nonzero: "vector_r (Vector3d 10 20 0) \<noteq> 0"
    by (simp add: vector_r_zero_iff zeroVector_def)
  have guarded: "\<exists>st'. processLine sampleEnv sampleOrbitState sampleVelocityLine = Proceed st'"
    using velocity_needs_position [OF sampleVelocity_starts sampleVelocity_fields nonzero,
        of sampleOrbitState]
    by (simp add: sampleVelocity_id sampleOrbit_arc)
  have unguarded:
    "processLine sampleEnv (initialState sampleEnv) sampleVelocityLine = UndefinedBehaviour"
    using velocity_needs_position [OF sampleVelocity_starts sampleVelocity_fields nonzero,
        of "initialState sampleEnv"]
    by (simp add: initialState_def arcAt_empty)
  let ?st = "(beginFile (initialState sampleEnv) ''in.sp3'')\<lparr>satId := ''L02'',
      clocks := push_back [] ''L02'' \<lparr>time = defaultTime, miscValue = 1 / 10 ^ 6 * 7\<rparr>\<rparr>"
  have first: "processLine sampleEnv (beginFile (initialState sampleEnv) ''in.sp3'')
      sampleNoPositionLine = Proceed ?st"
    by (simp add: positionBlock_fields [OF sampleNoPosition_starts sampleNoPosition_fields]
        sampleNoPosition_id storeClock_def storePosition_def scale_def vector_r_def
        beginFile_def initialState_def)
  have "scan sampleEnv ?st (sampleLostVelocityLine # []) = Undefined"
    using velocity_needs_position [OF sampleLostVelocity_starts sampleLostVelocity_fields
        nonzero, of ?st "[]"]
    by (simp add: sampleLostVelocity_id beginFile_def initialState_def arcAt_empty)
  with first have "run sampleEnv [(''in.sp3'', [sampleNoPositionLine, sampleLostVelocityLine])]
      = None"
    by (simp add: run_def)
  with guarded unguarded show ?thesis by blast
qed

subsection \<open>Covariance lines\<close>

lemma covarianceBlock_fields:
  assumes "startsWith line ''EP''"
    and "covarianceFields env line = Some (xx, yy, zz, xy, xz, yz)"
  shows "processLine env st line =
    Proceed (st\<lparr>covs := push_back (covs st) (satId st)
               \<lparr>time = curTime st,
                covariance = rotateTensor (rotation st)
                               (setData (covarianceData xx yy zz xy xz yz))\<rparr>\<rparr>)"
  using assms by (simp add: processLine_covariance covarianceBlock_def)

lemma satelliteListLine_satId:
  "flowState (satelliteListLine env st line) = Some st' \<Longrightarrow> satId st' = satId st"
  by (auto simp: satelliteListLine_def split: if_splits option.splits)

lemma timeSystemLine_satId:
  "flowState (timeSystemLine st line) = Some st' \<Longrightarrow> satId st' = satId st"
  by (auto simp: timeSystemLine_def split: if_splits option.splits)

lemma epochBlock_satId:
  "flowState (epochBlock env st line) = Some st' \<Longrightarrow> satId st' = satId st"
  by (auto simp: epochBlock_def Let_def split: if_splits option.splits)

lemma covarianceBlock_satId:
  "flowState (covarianceBlock env st line) = Some st' \<Longrightarrow> satId st' = satId st"
  by (auto simp: covarianceBlock_def split: if_splits option.splits)

lemma processLine_satId:
  assumes "\<not> startsWith line ''P''" and "\<not> startsWith line ''V''"
    and "flowState (processLine env st line) = Some st'"
  shows "satId st' = satId st"
  using processLine_cases [of env st line] assms
    satelliteListLine_satId [of env st line st'] timeSystemLine_satId [of st line st']
    epochBlock_satId [of env st line st'] covarianceBlock_satId [of env st line st']
  by (elim disjE) (auto simp: positionBlock_other velocityBlock_other)

lemma linesRead_satId:
  "linesRead env st ls = Some st' \<Longrightarrow>
   \<forall>l \<in> set ls. \<not> startsWith l ''P'' \<and> \<not> startsWith l ''V'' \<Longrightarrow> satId st' = satId st"
proof (induction env st ls rule: linesRead.induct)
  case (1 env st)
  then show ?case by simp
next
  case (2 env st line rest)
  show ?case
  proof (cases "processLine env st line")
    case (Proceed s)
    with 2 processLine_satId [of line env st s] show ?thesis by simp
  next
    case (SkipNext s)
    with 2 processLine_satId [of line env st s] show ?thesis
      by (cases rest) auto
  qed (use 2 in simp_all)
qed

lemma position_velocity_satId:
  assumes "startsWith line ''P'' \<or> startsWith line ''V''"
    and "processLine env st line = Proceed st'"
  shows "satId st' = lineSatId line"
proof -
  from assms(1) show ?thesis
  proof
    assume p: "startsWith line ''P''"
    with assms(2) show ?thesis
      by (auto simp: processLine_position positionBlock_def substr_satId storeClock_frame
          storePosition_frame simp del: One_nat_def split: option.splits)
  next
    assume v: "startsWith line ''V''"
    with assms(2) show ?thesis
      by (auto simp: processLine_velocity velocityBlock_def substr_satId Let_def
          simp del: One_nat_def split: option.splits if_splits)
  qed
qed

lemma sampleCovariance_fields:
  "covarianceFields sampleEnv sampleCovarianceLine = Some (2, 3, 4, 5000000, 5000000, 5000000)"
  by (simp add: sampleCovarianceLine_def covarianceFields_def getDouble_def substr_def
      sampleEnv_def sampleToDouble_def sampleToInt_def digitOf_def)

lemma sampleCovariance_starts: "startsWith sampleCovarianceLine ''EP''"
  by (simp add: sampleCovarianceLine_def startsWith_def)

text \<open>
  Claim C10. A covariance line has no satellite identifier of its own: its epoch is
  appended to the covariance arc of the current identifier \<open>satId\<close>, which the line
  leaves as it is, and no other arc changes. When the state was reached by reading a
  position or velocity line and then lines that are neither, the current identifier is
  the one of that position or velocity line. When only lines that are neither position
  nor velocity lines were read since the start of the file, it is the empty string.
\<close>

theorem covariance_line_satellite:
  assumes "startsWith line ''EP''"
    and "covarianceFields env line = Some (xx, yy, zz, xy, xz, yz)"
  shows "(\<exists>st'. processLine env st line = Proceed st' \<and> satId st' = satId st
           \<and> arcAt (covs st') (satId st)
               = arcAt (covs st) (satId st)
                 @ [\<lparr>time = curTime st,
                     covariance = rotateTensor (rotation st)
                                    (setData (covarianceData xx yy zz xy xz yz))\<rparr>]
           \<and> (\<forall>k. k \<noteq> satId st \<longrightarrow> arcAt (covs st') k = arcAt (covs st) k))
    \<and> (\<forall>st0 recent between.
          (startsWith recent ''P'' \<or> startsWith recent ''V'')
          \<and> (\<forall>l \<in> set between. \<not> startsWith l ''P'' \<and> \<not> startsWith l ''V'')
          \<and> linesRead env st0 (recent # between) = Some st
          \<longrightarrow> satId st = lineSatId recent)
    \<and> (\<forall>st0 name before.
          (\<forall>l \<in> set before. \<not> startsWith l ''P'' \<and> \<not> startsWith l ''V'')
          \<and> linesRead env (beginFile st0 name) before = Some st
          \<longrightarrow> satId st = [])"
proof -
  have filed: "\<exists>st'. processLine env st line = Proceed st' \<and> satId st' = satId st
           \<and> arcAt (covs st') (satId st)
               = arcAt (covs st) (satId st)
                 @ [\<lparr>time = curTime st,
                     covariance = rotateTensor (rotation st)
                                    (setData (covarianceData xx yy zz xy xz yz))\<rparr>]
           \<and> (\<forall>k. k \<noteq> satId st \<longrightarrow> arcAt (covs st') k = arcAt (covs st) k)"
    by (simp add: covarianceBlock_fields [OF assms] arcAt_push_back)
  have recent: "satId st = lineSatId recent"
    if pv: "startsWith recent ''P'' \<or> startsWith recent ''V''"
      and b: "\<forall>l \<in> set between. \<not> startsWith l ''P'' \<and> \<not> startsWith l ''V''"
      and r: "linesRead env st0 (recent # between) = Some st"
    for st0 recent between
  proof -
    from pv have "\<forall>s. processLine env st0 recent \<noteq> SkipNext s"
      by (auto simp: processLine_position processLine_velocity positionBlock_def
          velocityBlock_def Let_def split: option.splits if_splits)
    with r obtain st1 where st1: "processLine env st0 recent = Proceed st1"
      and rest: "linesRead env st1 between = Some st"
      by (cases "processLine env st0 recent") auto
    from linesRead_satId [OF rest b] position_velocity_satId [OF pv st1] show ?thesis
      by simp
  qed
  have start: "satId st = []"
    if b: "\<forall>l \<in> set before. \<not> startsWith l ''P'' \<and> \<not> startsWith l ''V''"
      and r: "linesRead env (beginFile st0 name) before = Some st"
    for st0 name before
    using linesRead_satId [OF r b] by (simp add: beginFile_def)
  from filed recent start show ?thesis by blast
qed

text \<open>The sample covariance line as the first line of a file, and after the position
  line of L01.\<close>

theorem covariance_line_satellite_witness:
  "(\<exists>st'. processLine sampleEnv (beginFile (initialState sampleEnv) ''in.sp3'')
             sampleCovarianceLine = Proceed st'
        \<and> length (arcAt (covs st') []) = 1)
   \<and> (\<exists>st st'. linesRead sampleEnv (initialState sampleEnv) [samplePositionLine] = Some st
        \<and> processLine sampleEnv st sampleCovarianceLine = Proceed st'
        \<and> length (arcAt (covs st') ''L01'') = 1 \<and> arcAt (covs st') [] = [])"
proof -
  let ?begin = "beginFile (initialState sampleEnv) ''in.sp3''"
  have "linesRead sampleEnv ?begin [] = Some ?begin"
    by simp
  with covariance_line_satellite [OF sampleCovariance_starts sampleCovariance_fields, of ?begin]
  have at_start: "\<exists>st'. processLine sampleEnv ?begin sampleCovarianceLine = Proceed st'
        \<and> length (arcAt (covs st') []) = 1"
    by (auto simp: beginFile_def initialState_def arcAt_empty)
  let ?st = "storeClock 7 (storePosition 3 4 0
      ((initialState sampleEnv)\<lparr>satId := lineSatId samplePositionLine\<rparr>))"
  have read: "linesRead sampleEnv (initialState sampleEnv) [samplePositionLine] = Some ?st"
    by (simp add: positionBlock_fields [OF samplePosition_starts samplePosition_fields])
  have none: "covs ?st = []"
    by (simp add: storeClock_frame storePosition_frame initialState_def)
  note after = covariance_line_satellite
    [OF sampleCovariance_starts sampleCovariance_fields, of ?st]
  have between: "\<forall>l \<in> set []. \<not> startsWith l ''P'' \<and> \<not> startsWith l ''V''"
    by simp
  from after read samplePosition_starts between
  have "satId ?st = lineSatId samplePositionLine"
    by blast
  then have current: "satId ?st = ''L01''"
    by (simp add: samplePosition_id)
  from after have "\<exists>st'. processLine sampleEnv ?st sampleCovarianceLine = Proceed st'
           \<and> length (arcAt (covs st') (satId ?st)) = length (arcAt (covs ?st) (satId ?st)) + 1
           \<and> (\<forall>k. k \<noteq> satId ?st \<longrightarrow> arcAt (covs st') k = arcAt (covs ?st) k)"
    by auto
  then have after_position: "\<exists>st'. processLine sampleEnv ?st sampleCovarianceLine = Proceed st'
        \<and> length (arcAt (covs st') ''L01'') = 1 \<and> arcAt (covs st') [] = []"
    unfolding current none by (auto simp: arcAt_empty)
  from at_start read after_position show ?thesis by blast
qed

lemma tensorAt_symmetric: "tensorAt t i j = tensorAt t j i"
  by (auto simp: tensorAt_def add.commute)

lemma rotateTensor_identity: "rotateTensor identityRotary t = t"
  by (cases t) (simp add: rotateTensor_def identityRotary_def tensorApply_def inner_def)

lemma covariance_form:
  "quadraticForm (setData (covarianceData xx yy zz xy xz yz)) v
    = (1 / 10 ^ 3 * xx * vx v)\<^sup>2 + (1 / 10 ^ 3 * yy * vy v)\<^sup>2 + (1 / 10 ^ 3 * zz * vz v)\<^sup>2
      + 2 * (1 / 10 ^ 7 * xy) * (1 / 10 ^ 3 * xx * vx v) * (1 / 10 ^ 3 * yy * vy v)
      + 2 * (1 / 10 ^ 7 * xz) * (1 / 10 ^ 3 * xx * vx v) * (1 / 10 ^ 3 * zz * vz v)
      + 2 * (1 / 10 ^ 7 * yz) * (1 / 10 ^ 3 * yy * vy v) * (1 / 10 ^ 3 * zz * vz v)"
  by (cases v)
    (simp add: quadraticForm_def setData_def covarianceData_def tensorApply_def inner_def
      power2_eq_square algebra_simps)

lemma sampleCorrelated_fields:
  "covarianceFields sampleEnv sampleCorrelatedLine
     = Some (1, 1, 1, 9000000, 9000000, - 9000000)"
  by (simp add: sampleCorrelatedLine_def covarianceFields_def getDouble_def substr_def
      sampleEnv_def sampleToDouble_def sampleToInt_def digitOf_def)

lemma sampleCorrelated_starts: "startsWith sampleCorrelatedLine ''EP''"
  by (simp add: sampleCorrelatedLine_def startsWith_def)

text \<open>
  Claim C5, as stated, fails in its last part. The covariance line with half-widths
  1, 1, 1 mm and correlations 0.9, 0.9 and -0.9 (raw 9000000, 9000000, -9000000) has
  positive half-widths and correlations within [-1, 1], yet the matrix stored for it has
  the negative quadratic form \<open>-2.4e-6\<close> at the vector (1, -1, -1): it is not positive
  semi-definite.
\<close>

theorem covariance_not_positiveSemiDefinite:
  "covarianceFields sampleEnv sampleCorrelatedLine = Some (1, 1, 1, 9000000, 9000000, - 9000000)
   \<and> \<bar>1 / 10 ^ 7 * 9000000\<bar> \<le> (1 :: real) \<and> \<bar>1 / 10 ^ 7 * (- 9000000)\<bar> \<le> (1 :: real)
   \<and> (0 :: real) < 1
   \<and> processLine sampleEnv (initialState sampleEnv) sampleCorrelatedLine
       = Proceed ((initialState sampleEnv)
           \<lparr>covs := [([], [\<lparr>time = defaultTime,
                             covariance = setData (covarianceData 1 1 1 9000000 9000000
                                                     (- 9000000))\<rparr>])]\<rparr>)
   \<and> quadraticForm (setData (covarianceData 1 1 1 9000000 9000000 (- 9000000)))
         (Vector3d 1 (- 1) (- 1)) < 0
   \<and> \<not> positiveSemiDefinite (setData (covarianceData 1 1 1 9000000 9000000 (- 9000000)))"
proof -
  have stored: "processLine sampleEnv (initialState sampleEnv) sampleCorrelatedLine
       = Proceed ((initialState sampleEnv)
           \<lparr>covs := [([], [\<lparr>time = defaultTime,
                             covariance = setData (covarianceData 1 1 1 9000000 9000000
                                                     (- 9000000))\<rparr>])]\<rparr>)"
    by (simp add: covarianceBlock_fields [OF sampleCorrelated_starts sampleCorrelated_fields])
      (simp add: initialState_def push_back_def setArc_def arcAt_def rotateTensor_identity)
  have negative: "quadraticForm (setData (covarianceData 1 1 1 9000000 9000000 (- 9000000)))
         (Vector3d 1 (- 1) (- 1)) < 0"
    by (simp add: covariance_form power2_eq_square)
  then have "\<not> positiveSemiDefinite (setData (covarianceData 1 1 1 9000000 9000000 (- 9000000)))"
    by (auto simp: positiveSemiDefinite_def not_le intro: exI [of _ "Vector3d 1 (- 1) (- 1)"])
  with sampleCorrelated_fields stored negative show ?thesis by simp
qed

text \<open>
  Claim C5, amended. For a covariance line whose six fields decode, whatever their
  values, the epoch appended to the arc of the current satellite holds the rotated
  matrix \<open>rotation T rotation\<^sup>T\<close> of the reconstructed matrix \<open>T\<close>. \<open>T\<close> is symmetric, its
  diagonal terms are \<open>(1e-3 xx)\<^sup>2\<close>, \<open>(1e-3 yy)\<^sup>2\<close>, \<open>(1e-3 zz)\<^sup>2\<close> and its off-diagonal terms
  are \<open>1e-13 xy xx yy\<close>, \<open>1e-13 xz xx zz\<close>, \<open>1e-13 yz yy zz\<close>. With the identity rotation the
  stored matrix is \<open>T\<close>. The line is stored unchecked, and the matrix need not be positive
  semi-definite.
\<close>

theorem covariance_reconstructed:
  assumes "startsWith line ''EP''"
    and "covarianceFields env line = Some (xx, yy, zz, xy, xz, yz)"
  shows "(\<exists>st'. processLine env st line = Proceed st'
           \<and> arcAt (covs st') (satId st)
               = arcAt (covs st) (satId st)
                 @ [\<lparr>time = curTime st,
                     covariance = rotateTensor (rotation st)
                                    (setData (covarianceData xx yy zz xy xz yz))\<rparr>])
    \<and> (\<forall>i j. tensorAt (setData (covarianceData xx yy zz xy xz yz)) i j
               = tensorAt (setData (covarianceData xx yy zz xy xz yz)) j i)
    \<and> tensorAt (setData (covarianceData xx yy zz xy xz yz)) 0 0 = (1 / 10 ^ 3 * xx)\<^sup>2
    \<and> tensorAt (setData (covarianceData xx yy zz xy xz yz)) 1 1 = (1 / 10 ^ 3 * yy)\<^sup>2
    \<and> tensorAt (setData (covarianceData xx yy zz xy xz yz)) 2 2 = (1 / 10 ^ 3 * zz)\<^sup>2
    \<and> tensorAt (setData (covarianceData xx yy zz xy xz yz)) 0 1 = 1 / 10 ^ 13 * xy * xx * yy
    \<and> tensorAt (setData (covarianceData xx yy zz xy xz yz)) 0 2 = 1 / 10 ^ 13 * xz * xx * zz
    \<and> tensorAt (setData (covarianceData xx yy zz xy xz yz)) 1 2 = 1 / 10 ^ 13 * yz * yy * zz
    \<and> (rotation st = identityRotary \<longrightarrow>
          rotateTensor (rotation st) (setData (covarianceData xx yy zz xy xz yz))
            = setData (covarianceData xx yy zz xy xz yz))"
proof -
  have stored: "\<exists>st'. processLine env st line = Proceed st'
           \<and> arcAt (covs st') (satId st)
               = arcAt (covs st) (satId st)
                 @ [\<lparr>time = curTime st,
                     covariance = rotateTensor (rotation st)
                                    (setData (covarianceData xx yy zz xy xz yz))\<rparr>]"
    by (simp add: covarianceBlock_fields [OF assms] arcAt_push_back)
  have entries:
    "tensorAt (setData (covarianceData xx yy zz xy xz yz)) 0 0 = (1 / 10 ^ 3 * xx)\<^sup>2"
    "tensorAt (setData (covarianceData xx yy zz xy xz yz)) 1 1 = (1 / 10 ^ 3 * yy)\<^sup>2"
    "tensorAt (setData (covarianceData xx yy zz xy xz yz)) 2 2 = (1 / 10 ^ 3 * zz)\<^sup>2"
    "tensorAt (setData (covarianceData xx yy zz xy xz yz)) 0 1 = 1 / 10 ^ 13 * xy * xx * yy"
    "tensorAt (setData (covarianceData xx yy zz xy xz yz)) 0 2 = 1 / 10 ^ 13 * xz * xx * zz"
    "tensorAt (setData (covarianceData xx yy zz xy xz yz)) 1 2 = 1 / 10 ^ 13 * yz * yy * zz"
    by (simp_all add: tensorAt_def setData_def covarianceData_def)
  from stored entries tensorAt_symmetric rotateTensor_identity show ?thesis
    by simp
qed

text \<open>The sample covariance line with half-widths 2, 3, 4 mm and all three
  correlations 0.5, read in the initial state.\<close>

theorem covariance_reconstructed_witness:
  "(\<exists>st'. processLine sampleEnv (initialState sampleEnv) sampleCovarianceLine = Proceed st'
      \<and> arcAt (covs st') []
          = [\<lparr>time = defaultTime,
              covariance = Tensor3d (4 / 10 ^ 6) (9 / 10 ^ 6) (16 / 10 ^ 6)
                                    (3 / 10 ^ 6) (4 / 10 ^ 6) (6 / 10 ^ 6)\<rparr>])
   \<and> tensorAt (Tensor3d (4 / 10 ^ 6) (9 / 10 ^ 6) (16 / 10 ^ 6)
                         (3 / 10 ^ 6) (4 / 10 ^ 6) (6 / 10 ^ 6)) 1 0
       = 1 / 10 ^ 13 * 5000000 * 2 * 3"
proof -
  have data: "setData (covarianceData 2 3 4 5000000 5000000 5000000)
      = Tensor3d (4 / 10 ^ 6) (9 / 10 ^ 6) (16 / 10 ^ 6) (3 / 10 ^ 6) (4 / 10 ^ 6) (6 / 10 ^ 6)"
    by (simp add: setData_def covarianceData_def power2_eq_square)
  note sample = covariance_reconstructed
    [OF sampleCovariance_starts sampleCovariance_fields, of "initialState sampleEnv"]
  from sample have "\<exists>st'. processLine sampleEnv (initialState sampleEnv) sampleCovarianceLine
        = Proceed st'
      \<and> arcAt (covs st') (satId (initialState sampleEnv))
          = arcAt (covs (initialState sampleEnv)) (satId (initialState sampleEnv))
            @ [\<lparr>time = curTime (initialState sampleEnv),
                covariance = rotateTensor (rotation (initialState sampleEnv))
                               (setData (covarianceData 2 3 4 5000000 5000000 5000000))\<rparr>]"
    by blast
  then have stored: "\<exists>st'. processLine sampleEnv (initialState sampleEnv) sampleCovarianceLine
        = Proceed st'
      \<and> arcAt (covs st') []
          = [\<lparr>time = defaultTime,
              covariance = Tensor3d (4 / 10 ^ 6) (9 / 10 ^ 6) (16 / 10 ^ 6)
                                    (3 / 10 ^ 6) (4 / 10 ^ 6) (6 / 10 ^ 6)\<rparr>]"
    by (simp add: initialState_def arcAt_empty rotateTensor_identity data)
  from sample
  have "tensorAt (setData (covarianceData 2 3 4 5000000 5000000 5000000)) 1 0
      = tensorAt (setData (covarianceData 2 3 4 5000000 5000000 5000000)) 0 1"
    and "tensorAt (setData (covarianceData 2 3 4 5000000 5000000 5000000)) 0 1
      = 1 / 10 ^ 13 * 5000000 * 2 * 3"
    by blast+
  then have "tensorAt (setData (covarianceData 2 3 4 5000000 5000000 5000000)) 1 0
      = 1 / 10 ^ 13 * 5000000 * 2 * 3"
    by (rule trans)
  with stored show ?thesis
    by (simp only: data) 
qed

subsection \<open>The time system\<close>

lemma timeSystemLine_tag:
  assumes "startsWith line ''%c''" and "substr line 9 3 = Some tag"
  shows "processLine env st line =
    SkipNext (if tag = ''GPS'' then st\<lparr>timeSystem := GPS\<rparr>
              else if tag = ''UTC'' then st\<lparr>timeSystem := UTC\<rparr>
              else if tag = ''TAI'' then st\<lparr>timeSystem := TAI\<rparr>
              else st\<lparr>events := events st @ [logWarning (UnknownTimeSystem tag)]\<rparr>)"
  using assms by (simp add: processLine_timeSystem timeSystemLine_def)

lemma satelliteListLine_timeSystem:
  "flowState (satelliteListLine env st line) = Some st' \<Longrightarrow> timeSystem st' = timeSystem st"
  by (auto simp: satelliteListLine_def split: if_splits option.splits)

lemma epochBlock_timeSystem:
  "flowState (epochBlock env st line) = Some st' \<Longrightarrow> timeSystem st' = timeSystem st"
  by (auto simp: epochBlock_def Let_def split: if_splits option.splits)

lemma positionBlock_timeSystem:
  "flowState (positionBlock env st line) = Some st' \<Longrightarrow> timeSystem st' = timeSystem st"
  by (auto simp: positionBlock_def storeClock_def storePosition_def Let_def
      split: if_splits option.splits)

lemma covarianceBlock_timeSystem:
  "flowState (covarianceBlock env st line) = Some st' \<Longrightarrow> timeSystem st' = timeSystem st"
  by (auto simp: covarianceBlock_def split: if_splits option.splits)

lemma velocityBlock_timeSystem:
  "flowState (velocityBlock env st line) = Some st' \<Longrightarrow> timeSystem st' = timeSystem st"
  by (auto simp: velocityBlock_def Let_def split: if_splits option.splits)

lemma processLine_keeps_timeSystem:
  assumes "\<not> startsWith line ''%c''" and "flowState (processLine env st line) = Some st'"
  shows "timeSystem st' = timeSystem st"
  using processLine_cases [of env st line] assms
    satelliteListLine_timeSystem [of env st line st'] epochBlock_timeSystem [of env st line st']
    positionBlock_timeSystem [of env st line st'] covarianceBlock_timeSystem [of env st line st']
    velocityBlock_timeSystem [of env st line st']
  by (elim disjE) auto

lemma linesRead_keeps_timeSystem:
  "linesRead env st ls = Some st' \<Longrightarrow> \<forall>l \<in> set ls. \<not> startsWith l ''%c'' \<Longrightarrow>
   timeSystem st' = timeSystem st"
proof (induction env st ls rule: linesRead.induct)
  case (1 env st)
  then show ?case by simp
next
  case (2 env st line rest)
  show ?case
  proof (cases "processLine env st line")
    case (Proceed s)
    with 2 processLine_keeps_timeSystem [of line env st s] show ?thesis by simp
  next
    case (SkipNext s)
    with 2 processLine_keeps_timeSystem [of line env st s] show ?thesis
      by (cases rest) auto
  qed (use 2 in simp_all)
qed

lemma sampleUtc_starts: "startsWith sampleUtcLine ''%c''"
  by (simp add: sampleUtcLine_def startsWith_def)

lemma sampleUtc_tag: "substr sampleUtcLine 9 3 = Some ''UTC''"
  by (simp add: sampleUtcLine_def substr_def)

lemma sampleTai_starts: "startsWith sampleTaiLine ''%c''"
  by (simp add: sampleTaiLine_def startsWith_def)

lemma sampleTai_tag: "substr sampleTaiLine 9 3 = Some ''TAI''"
  by (simp add: sampleTaiLine_def substr_def)

lemma sampleUnknown_starts: "startsWith sampleUnknownLine ''%c''"
  by (simp add: sampleUnknownLine_def startsWith_def)

lemma sampleUnknown_tag: "substr sampleUnknownLine 9 3 = Some ''XYZ''"
  by (simp add: sampleUnknownLine_def substr_def)

lemma processLine_events:
  assumes "flowState (processLine env st line) = Some st'"
  shows "\<exists>more. events st' = events st @ more"
proof -
  have "events st' = events st \<or> (\<exists>tag. events st' = events st @ [logWarning (UnknownTimeSystem tag)])"
    using processLine_cases [of env st line] assms
    by (elim disjE)
      (auto simp: satelliteListLine_def timeSystemLine_def epochBlock_def positionBlock_def
        covarianceBlock_def velocityBlock_def storeClock_def storePosition_def Let_def
        split: if_splits option.splits)
  then show ?thesis by auto
qed

lemma linesRead_events:
  "linesRead env st ls = Some st' \<Longrightarrow> \<exists>more. events st' = events st @ more"
proof (induction env st ls rule: linesRead.induct)
  case (1 env st)
  then show ?case by simp
next
  case (2 env st line rest)
  show ?case
  proof (cases "processLine env st line")
    case (Proceed s)
    with 2 processLine_events [of env st line s] show ?thesis by fastforce
  next
    case (SkipNext s)
    with 2 processLine_events [of env st line s] show ?thesis
      by (cases rest) fastforce+
  qed (use 2 in simp_all)
qed

text \<open>
  Claim C6. The tag is read once from the declaration block of the file: let the lines
  before the declaration hold no \<open>%c\<close> line, let the declaration carry the three characters
  \<open>tag\<close> in columns 9 to 11 and be followed by the line that is dropped with it and by
  lines that are not \<open>%c\<close> lines. Then an epoch header gets, from its calendar fields:
  \<open>timeUTC2GPS\<close> of the calendar time for the tag \<open>UTC\<close>, the calendar time minus
  \<open>seconds2time(DELTA_TAI_GPS)\<close> for \<open>TAI\<close>, and the calendar time itself for \<open>GPS\<close> and for
  every other tag; for every other tag the warning is in the log and the time system is
  \<open>GPS\<close>.
\<close>

theorem time_system_resolution:
  assumes "\<forall>l \<in> set before. \<not> startsWith l ''%c''"
    and "linesRead env (beginFile st0 name) before = Some st1"
    and "startsWith declaration ''%c''" and "substr declaration 9 3 = Some tag"
    and "\<forall>l \<in> set between. \<not> startsWith l ''%c''"
    and "linesRead env st1 (declaration # second # between) = Some st"
    and "startsWith line ''* ''"
    and "epochFields env line = Some (year, month, day, hour, minute, sec)"
  shows "(\<exists>st'. processLine env st line = Proceed st'
           \<and> curTime st'
               = (if tag = ''UTC'' then timeUTC2GPS env (date2time env year month day hour minute sec)
                  else if tag = ''TAI'' then
                    date2time env year month day hour minute sec
                      - seconds2time env (DELTA_TAI_GPS env)
                  else date2time env year month day hour minute sec))
    \<and> (tag \<noteq> ''GPS'' \<and> tag \<noteq> ''UTC'' \<and> tag \<noteq> ''TAI'' \<longrightarrow>
          timeSystem st = GPS \<and> logWarning (UnknownTimeSystem tag) \<in> set (events st))"
proof -
  let ?t = "date2time env year month day hour minute sec"
  have start: "timeSystem st1 = GPS"
    using linesRead_keeps_timeSystem [OF assms(2,1)] by (simp add: beginFile_def)
  define declared where "declared =
    (if tag = ''GPS'' then st1\<lparr>timeSystem := GPS\<rparr>
     else if tag = ''UTC'' then st1\<lparr>timeSystem := UTC\<rparr>
     else if tag = ''TAI'' then st1\<lparr>timeSystem := TAI\<rparr>
     else st1\<lparr>events := events st1 @ [logWarning (UnknownTimeSystem tag)]\<rparr>)"
  have "processLine env st1 declaration = SkipNext declared"
    unfolding declared_def by (rule timeSystemLine_tag [OF assms(3,4)])
  with assms(6) have rest: "linesRead env declared between = Some st"
    by simp
  have system: "timeSystem st = timeSystem declared"
    by (rule linesRead_keeps_timeSystem [OF rest assms(5)])
  have declared_system: "timeSystem declared
      = (if tag = ''UTC'' then UTC else if tag = ''TAI'' then TAI else GPS)"
    by (simp add: declared_def start)
  obtain st' where step: "processLine env st line = Proceed st'"
    and time: "curTime st' = epochTime env (timeSystem st) (year, month, day, hour, minute, sec)"
    using epochBlock_fields [OF assms(7,8), of st] by (cases "earthRotation env") auto
  have resolved: "curTime st'
      = (if tag = ''UTC'' then timeUTC2GPS env ?t
         else if tag = ''TAI'' then ?t - seconds2time env (DELTA_TAI_GPS env)
         else ?t)"
    by (simp add: time system declared_system epochTime_def)
  have unknown: "timeSystem st = GPS \<and> logWarning (UnknownTimeSystem tag) \<in> set (events st)"
    if "tag \<noteq> ''GPS''" "tag \<noteq> ''UTC''" "tag \<noteq> ''TAI''"
  proof -
    from linesRead_events [OF rest] obtain more where "events st = events declared @ more"
      by blast
    with that show ?thesis
      by (simp add: system declared_system) (simp add: declared_def)
  qed
  from step resolved unknown show ?thesis by blast
qed

text \<open>Files that start with the declaration \<open>UTC\<close>, \<open>TAI\<close> and \<open>XYZ\<close>, each followed by
  the sample epoch header: with the sample collaborators the times are 172805 + 18,
  172805 - 19 and 172805.\<close>

theorem time_system_resolution_witness:
  "(\<exists>st'. processLine sampleEnv
             ((beginFile (initialState sampleEnv) ''in.sp3'')\<lparr>timeSystem := UTC\<rparr>)
             sampleEpochLine = Proceed st'
        \<and> curTime st' = 172823)
   \<and> (\<exists>st'. processLine sampleEnv
             ((beginFile (initialState sampleEnv) ''in.sp3'')\<lparr>timeSystem := TAI\<rparr>)
             sampleEpochLine = Proceed st'
        \<and> curTime st' = 172786)
   \<and> (\<exists>st'. processLine sampleEnv
             ((beginFile (initialState sampleEnv) ''in.sp3'')
                \<lparr>events := [logStatus (ReadFile ''in.sp3''),
                             logWarning (UnknownTimeSystem ''XYZ'')]\<rparr>)
             sampleEpochLine = Proceed st'
        \<and> curTime st' = 172805)"
proof -
  let ?begin = "beginFile (initialState sampleEnv) ''in.sp3''"
  let ?utc = "?begin\<lparr>timeSystem := UTC\<rparr>"
  let ?tai = "?begin\<lparr>timeSystem := TAI\<rparr>"
  let ?unknown = "?begin\<lparr>events := [logStatus (ReadFile ''in.sp3''),
                             logWarning (UnknownTimeSystem ''XYZ'')]\<rparr>"
  have no_lines: "\<forall>l \<in> set []. \<not> startsWith l ''%c''"
    by simp
  have start: "linesRead sampleEnv ?begin [] = Some ?begin"
    by simp
  have read_utc: "linesRead sampleEnv ?begin (sampleUtcLine # sampleSecondLine # []) = Some ?utc"
    by (simp add: timeSystemLine_tag [OF sampleUtc_starts sampleUtc_tag])
  have read_tai: "linesRead sampleEnv ?begin (sampleTaiLine # sampleSecondLine # []) = Some ?tai"
    by (simp add: timeSystemLine_tag [OF sampleTai_starts sampleTai_tag])
  have read_unknown:
    "linesRead sampleEnv ?begin (sampleUnknownLine # sampleSecondLine # []) = Some ?unknown"
    by (simp add: timeSystemLine_tag [OF sampleUnknown_starts sampleUnknown_tag])
      (simp add: beginFile_def initialState_def)
  have utc: "\<exists>st'. processLine sampleEnv ?utc sampleEpochLine = Proceed st'
      \<and> curTime st' = 172823"
    using time_system_resolution [OF no_lines start sampleUtc_starts sampleUtc_tag no_lines
        read_utc sampleEpoch_starts sampleEpoch_fields]
    by (simp add: sampleEnv_def)
  have tai: "\<exists>st'. processLine sampleEnv ?tai sampleEpochLine = Proceed st'
      \<and> curTime st' = 172786"
    using time_system_resolution [OF no_lines start sampleTai_starts sampleTai_tag no_lines
        read_tai sampleEpoch_starts sampleEpoch_fields]
    by (simp add: sampleEnv_def)
  have unknown: "\<exists>st'. processLine sampleEnv ?unknown sampleEpochLine = Proceed st'
      \<and> curTime st' = 172805"
    using time_system_resolution [OF no_lines start sampleUnknown_starts sampleUnknown_tag
        no_lines read_unknown sampleEpoch_starts sampleEpoch_fields]
    by (simp add: sampleEnv_def)
  from utc tai unknown show ?thesis by blast
qed

text \<open>
  The hypothesis of one declaration is needed. The branch for an unknown tag logs the
  warning and assigns nothing, so the time system it leaves is the one in force: \<open>GPS\<close> at
  the start of every file, but \<open>UTC\<close> after a declaration \<open>UTC\<close> earlier in the same file.
  With a second declaration block \<open>XYZ\<close> after the block \<open>UTC\<close>, the epoch header gets the
  time converted from UTC (172823 with the sample collaborators), not 172805.
\<close>

lemma repeated_declaration_keeps_earlier:
  "linesRead sampleEnv (beginFile (initialState sampleEnv) ''in.sp3'')
     [sampleUtcLine, sampleSecondLine, sampleUnknownLine, sampleSecondLine, sampleEpochLine]
   = Some ((beginFile (initialState sampleEnv) ''in.sp3'')
       \<lparr>timeSystem := UTC,
        events := [logStatus (ReadFile ''in.sp3''), logWarning (UnknownTimeSystem ''XYZ'')],
        curTime := 172823,
        cm2ceCorrection := Vector3d (4 * sqrt 3) (6 * sqrt 3) (2 * sqrt 3)\<rparr>)
   \<and> epochTime sampleEnv GPS (2020, 1, 2, 0, 0, 5) = 172805
   \<and> epochTime sampleEnv UTC (2020, 1, 2, 0, 0, 5) = 172823"
  by (simp add: timeSystemLine_tag [OF sampleUtc_starts sampleUtc_tag]
      timeSystemLine_tag [OF sampleUnknown_starts sampleUnknown_tag]
      epochBlock_fields [OF sampleEpoch_starts sampleEpoch_fields])
    (simp add: sampleEnv_def initialState_def beginFile_def epochTime_def cm2ceAt_def
      sampleHarmonics_def scale_def)

subsection \<open>Exceptions\<close>

lemma decodingFails_Throw:
  assumes "decodingFails env st line"
  shows "\<exists>st'. processLine env st line = Throw st' \<and> records st' = records st
    \<and> events st' = events st"
proof -
  consider (list) "startsWith line ''+''" "satelliteIdentifier st = []" "getInt env line 3 3 = None"
    | (epoch) "startsWith line ''* ''" "epochFields env line = None"
    | (position) "startsWith line ''P''" "positionFields env line = None"
    | (covariance) "startsWith line ''EP''" "covarianceFields env line = None"
    | (velocity) "startsWith line ''V''" "velocityFields env line = None"
    using assms by (auto simp: decodingFails_def)
  then show ?thesis
  proof cases
    case list
    then show ?thesis
      by (simp add: processLine_satelliteList satelliteListLine_def)
  next
    case epoch
    then show ?thesis
      by (simp add: processLine_epoch epochBlock_def)
  next
    case position
    then show ?thesis
      by (simp add: processLine_position positionBlock_def substr_satId records_def
          del: One_nat_def)
  next
    case covariance
    then show ?thesis
      by (simp add: processLine_covariance covarianceBlock_def)
  next
    case velocity
    then show ?thesis
      by (simp add: processLine_velocity velocityBlock_def substr_satId records_def
          del: One_nat_def)
  qed
qed

lemma processLine_Throw_records:
  assumes "processLine env st line = Throw st'"
  shows "records st' = records st \<and> events st' = events st"
  using processLine_cases [of env st line] assms
  by (elim disjE)
    (auto simp: satelliteListLine_def timeSystemLine_def epochBlock_def positionBlock_def
      covarianceBlock_def velocityBlock_def records_def Let_def
      split: if_splits option.splits)

lemma scan_linesRead:
  "linesRead env st before = Some st' \<Longrightarrow> scan env st (before @ rest) = scan env st' rest"
proof (induction env st before rule: linesRead.induct)
  case (1 env st)
  then show ?case by simp
next
  case (2 env st line more)
  show ?case
  proof (cases "processLine env st line")
    case (Proceed s)
    with 2 show ?thesis by simp
  next
    case (SkipNext s)
    with 2 show ?thesis by (cases more) auto
  qed (use 2 in simp_all)
qed

lemma readFiles_filesCompleted:
  "filesCompleted env st done = Some st' \<Longrightarrow>
   readFiles env st (done @ files) = readFiles env st' files"
proof (induction env st "done" rule: filesCompleted.induct)
  case (1 env st)
  then show ?case by simp
next
  case (2 env st name ls more)
  then show ?case
    by (cases "scan env (beginFile st name) ls") auto
qed

lemma writeResults_records:
  "records st' = records st \<Longrightarrow> writeResults env st' = writeResults env st"
  by (simp add: records_def writeResults_def writeSingle_def Let_def)

lemma sampleSatelliteList_read:
  "satelliteIdentifier st = [] \<Longrightarrow>
   processLine sampleEnv st sampleSatelliteListLine = Proceed (st\<lparr>satelliteIdentifier := ''L01''\<rparr>)"
  by (simp add: processLine_satelliteList satelliteListLine_def startsWith_def getInt_def
      substr_def sampleSatelliteListLine_def sampleEnv_def sampleToInt_def digitOf_def)

lemma sampleEpoch_processed:
  "timeSystem st = GPS \<Longrightarrow>
   processLine sampleEnv st sampleEpochLine
     = Proceed (st\<lparr>curTime := 172805,
                   cm2ceCorrection := Vector3d (4 * sqrt 3) (6 * sqrt 3) (2 * sqrt 3)\<rparr>)"
  by (simp add: epochBlock_fields [OF sampleEpoch_starts sampleEpoch_fields])
    (simp add: sampleEnv_def epochTime_def cm2ceAt_def sampleHarmonics_def scale_def)

lemma samplePosition_processed:
  "processLine sampleEnv st samplePositionLine
     = Proceed (st\<lparr>satId := ''L01'',
          orbits := push_back (orbits st) ''L01''
            \<lparr>time = curTime st,
             position = rotateVector (rotation st)
               (vminus (Vector3d 3000 4000 0) (cm2ceCorrection st)),
             velocity = zeroVector, acceleration = zeroVector\<rparr>,
          clocks := push_back (clocks st) ''L01'' \<lparr>time = curTime st, miscValue = 7 / 10 ^ 6\<rparr>\<rparr>)"
  by (simp add: positionBlock_fields [OF samplePosition_starts samplePosition_fields]
      samplePosition_id storeClock_def storePosition_def scale_def vector_r_def)

lemma sampleNoClock_fields: "positionFields sampleEnv sampleNoClockLine = Some (3, 4, 0, 999999)"
  by (simp add: sampleNoClockLine_def positionFields_def getDouble_def substr_def sampleEnv_def
      sampleToDouble_def sampleToInt_def digitOf_def)

lemma sampleNoClock_starts: "startsWith sampleNoClockLine ''P''"
  by (simp add: sampleNoClockLine_def startsWith_def)

lemma sampleNoClock_id: "lineSatId sampleNoClockLine = ''L01''"
  by (simp add: sampleNoClockLine_def lineSatId_def)

lemma sampleNoClock_processed:
  "processLine sampleEnv st sampleNoClockLine
     = Proceed (st\<lparr>satId := ''L01'',
          orbits := push_back (orbits st) ''L01''
            \<lparr>time = curTime st,
             position = rotateVector (rotation st)
               (vminus (Vector3d 3000 4000 0) (cm2ceCorrection st)),
             velocity = zeroVector, acceleration = zeroVector\<rparr>\<rparr>)"
  by (simp add: positionBlock_fields [OF sampleNoClock_starts sampleNoClock_fields]
      sampleNoClock_id storeClock_def storePosition_def scale_def vector_r_def)

lemma sampleBroken_fails: "decodingFails sampleEnv st sampleBrokenLine"
  by (simp add: decodingFails_def sampleBrokenLine_def startsWith_def positionFields_def
      getDouble_def substr_def sampleEnv_def sampleToDouble_def sampleToInt_def digitOf_def)

lemma sampleEnv_config:
  "configIdentifier sampleEnv = []" "fileNameOrbit sampleEnv = ''orbit''"
  "fileNameClock sampleEnv = ''clock''" "fileNameCov sampleEnv = ''cov''"
  "appendBaseName sampleEnv name text = name @ text"
  by (simp_all add: sampleEnv_def)

text \<open>
  Claim C7. Let the files \<open>done\<close> be read without an exception, and let the next file be
  read up to a line of which a numeric field cannot be decoded. Then the scan of that
  file is aborted with the identifier, the maps and the log as they were before that
  line; and the run logs one warning and goes on to the output part, which writes from
  the state before the faulty line: the result does not depend on the lines \<open>after\<close> it
  in the file, nor on the files \<open>later\<close> in the list.
\<close>

theorem parse_fault_stops_reading:
  assumes "filesCompleted env (initialState env) done = Some st"
    and "linesRead env (beginFile st name) before = Some st1"
    and "decodingFails env st1 line"
  shows "\<exists>st2. scan env (beginFile st name) (before @ line # after) = Aborted st2
    \<and> records st2 = records st1 \<and> events st2 = events st1
    \<and> run env (done @ (name, before @ line # after) # later)
        = Some (events st1 @ [logWarning ExceptionContinue] @ writeResults env st1)"
proof -
  from decodingFails_Throw [OF assms(3)] obtain st' where
    thrown: "processLine env st1 line = Throw st'" and same: "records st' = records st1"
    "events st' = events st1"
    by blast
  have aborted: "scan env (beginFile st name) (before @ line # after) = Aborted st'"
    using scan_linesRead [OF assms(2)] thrown by simp
  have "readFiles env (initialState env) (done @ (name, before @ line # after) # later)
      = Some (st'\<lparr>events := events st' @ [logWarning ExceptionContinue]\<rparr>)"
    using readFiles_filesCompleted [OF assms(1)] aborted by simp
  moreover have "writeResults env (st'\<lparr>events := events st' @ [logWarning ExceptionContinue]\<rparr>)
      = writeResults env st1"
    using same by (intro writeResults_records) (simp add: records_def)
  ultimately have "run env (done @ (name, before @ line # after) # later)
           = Some (events st1 @ [logWarning ExceptionContinue] @ writeResults env st1)"
    using same by (simp add: run_def)
  with aborted same show ?thesis by blast
qed

text \<open>Three files: the first is read to its end; the second has a position line cut
  off within its second field after one good position line; the third is never read.
  The output holds the two orbit epochs and the clock epoch read before the fault.\<close>

theorem parse_fault_stops_reading_witness:
  "run sampleEnv
     ([(''a.sp3'', [sampleSatelliteListLine, sampleEpochLine, samplePositionLine])]
      @ (''b.sp3'', [sampleNoClockLine] @ sampleBrokenLine # [samplePositionLine])
      # [(''c.sp3'', [samplePositionLine])])
   = Some [logStatus (ReadFile ''a.sp3''), logStatus (ReadFile ''b.sp3''),
           logWarning ExceptionContinue,
           logStatus (WriteOrbitData ''orbit''),
           writeOrbit ''orbit''
             [\<lparr>time = 172805,
               position = Vector3d (3000 - 4 * sqrt 3) (4000 - 6 * sqrt 3) (- (2 * sqrt 3)),
               velocity = zeroVector, acceleration = zeroVector\<rparr>,
              \<lparr>time = defaultTime, position = Vector3d 3000 4000 0,
               velocity = zeroVector, acceleration = zeroVector\<rparr>],
           printStatistics
             [\<lparr>time = 172805,
               position = Vector3d (3000 - 4 * sqrt 3) (4000 - 6 * sqrt 3) (- (2 * sqrt 3)),
               velocity = zeroVector, acceleration = zeroVector\<rparr>,
              \<lparr>time = defaultTime, position = Vector3d 3000 4000 0,
               velocity = zeroVector, acceleration = zeroVector\<rparr>],
           logStatus (WriteClockData ''clock''),
           writeClock ''clock'' [\<lparr>time = 172805, miscValue = 7 / 10 ^ 6\<rparr>]]"
proof -
  let ?e1 = "\<lparr>time = 172805,
               position = Vector3d (3000 - 4 * sqrt 3) (4000 - 6 * sqrt 3) (- (2 * sqrt 3)),
               velocity = zeroVector, acceleration = zeroVector\<rparr>"
  let ?e2 = "\<lparr>time = defaultTime, position = Vector3d 3000 4000 0,
               velocity = zeroVector, acceleration = zeroVector\<rparr>"
  let ?c1 = "\<lparr>time = 172805 :: real, miscValue = 7 / 10 ^ 6\<rparr>"
  let ?a = "\<lparr>satelliteIdentifier = ''L01'', timeSystem = GPS, curTime = 172805,
      satId = ''L01'', rotation = identityRotary, omega = zeroVector,
      cm2ceCorrection = Vector3d (4 * sqrt 3) (6 * sqrt 3) (2 * sqrt 3),
      orbits = [(''L01'', [?e1])], clocks = [(''L01'', [?c1])], covs = [],
      events = [logStatus (ReadFile ''a.sp3'')]\<rparr>"
  let ?b = "\<lparr>satelliteIdentifier = ''L01'', timeSystem = GPS, curTime = defaultTime,
      satId = ''L01'', rotation = identityRotary, omega = zeroVector,
      cm2ceCorrection = zeroVector,
      orbits = [(''L01'', [?e1, ?e2])], clocks = [(''L01'', [?c1])], covs = [],
      events = [logStatus (ReadFile ''a.sp3''), logStatus (ReadFile ''b.sp3'')]\<rparr>"
  have first: "filesCompleted sampleEnv (initialState sampleEnv)
      [(''a.sp3'', [sampleSatelliteListLine, sampleEpochLine, samplePositionLine])] = Some ?a"
    by (simp add: beginFile_def initialState_def sampleEnv_config sampleSatelliteList_read
        sampleEpoch_processed samplePosition_processed)
      (simp add: push_back_def setArc_def arcAt_def rotate_identity vminus_def)
  have before: "linesRead sampleEnv (beginFile ?a ''b.sp3'') [sampleNoClockLine] = Some ?b"
    by (simp add: beginFile_def sampleNoClock_processed)
      (simp add: push_back_def setArc_def arcAt_def rotate_identity vminus_zero)
  from parse_fault_stops_reading [OF first before sampleBroken_fails,
      of "[samplePositionLine]" "[(''c.sp3'', [samplePositionLine])]"]
  have "run sampleEnv
     ([(''a.sp3'', [sampleSatelliteListLine, sampleEpochLine, samplePositionLine])]
      @ (''b.sp3'', [sampleNoClockLine] @ sampleBrokenLine # [samplePositionLine])
      # [(''c.sp3'', [samplePositionLine])])
    = Some (events ?b @ [logWarning ExceptionContinue] @ writeResults sampleEnv ?b)"
    by (elim exE conjE)
  then show ?thesis
    by (simp add: writeResults_def writeSingle_def arcAt_def sampleEnv_config)
qed

subsection \<open>The satellite identifier and the output of a single satellite\<close>

lemma satelliteListLine_identifier:
  "flowState (satelliteListLine env st line) = Some st' \<Longrightarrow>
   satelliteIdentifier st' = satelliteIdentifier st
   \<or> (satelliteIdentifier st = [] \<and> (\<exists>n. getInt env line 3 3 = Some n \<and> 0 < n)
       \<and> substr line 9 3 = Some (satelliteIdentifier st'))"
  by (auto simp: satelliteListLine_def split: if_splits option.splits)

lemma timeSystemLine_identifier:
  "flowState (timeSystemLine st line) = Some st' \<Longrightarrow>
   satelliteIdentifier st' = satelliteIdentifier st"
  by (auto simp: timeSystemLine_def split: if_splits option.splits)

lemma epochBlock_identifier:
  "flowState (epochBlock env st line) = Some st' \<Longrightarrow>
   satelliteIdentifier st' = satelliteIdentifier st"
  by (auto simp: epochBlock_def Let_def split: if_splits option.splits)

lemma positionBlock_identifier:
  "flowState (positionBlock env st line) = Some st' \<Longrightarrow>
   satelliteIdentifier st' = satelliteIdentifier st"
  by (auto simp: positionBlock_def storeClock_def storePosition_def Let_def
      split: if_splits option.splits)

lemma covarianceBlock_identifier:
  "flowState (covarianceBlock env st line) = Some st' \<Longrightarrow>
   satelliteIdentifier st' = satelliteIdentifier st"
  by (auto simp: covarianceBlock_def split: if_splits option.splits)

lemma velocityBlock_identifier:
  "flowState (velocityBlock env st line) = Some st' \<Longrightarrow>
   satelliteIdentifier st' = satelliteIdentifier st"
  by (auto simp: velocityBlock_def Let_def split: if_splits option.splits)

lemma processLine_identifier:
  assumes "flowState (processLine env st line) = Some st'"
  shows "satelliteIdentifier st' = satelliteIdentifier st
    \<or> (satelliteIdentifier st = [] \<and> startsWith line ''+''
        \<and> (\<exists>n. getInt env line 3 3 = Some n \<and> 0 < n)
        \<and> substr line 9 3 = Some (satelliteIdentifier st'))"
  using processLine_cases [of env st line] assms
    satelliteListLine_identifier [of env st line st'] timeSystemLine_identifier [of st line st']
    epochBlock_identifier [of env st line st'] positionBlock_identifier [of env st line st']
    covarianceBlock_identifier [of env st line st'] velocityBlock_identifier [of env st line st']
  by (elim disjE) auto

lemma scan_identifier:
  "scan env st ls = Completed st' \<or> scan env st ls = Aborted st' \<Longrightarrow>
   satelliteIdentifier st \<noteq> [] \<Longrightarrow> satelliteIdentifier st' = satelliteIdentifier st"
proof (induction env st ls rule: scan.induct)
  case (1 env st)
  then show ?case by simp
next
  case (2 env st line rest)
  show ?case
  proof (cases "processLine env st line")
    case (Proceed s)
    with 2 processLine_identifier [of env st line s] show ?thesis by auto
  next
    case (SkipNext s)
    with 2 processLine_identifier [of env st line s] show ?thesis
      by (cases rest) auto
  next
    case (Break s)
    with 2 processLine_identifier [of env st line s] show ?thesis by auto
  next
    case (Throw s)
    with 2 processLine_identifier [of env st line s] show ?thesis by auto
  next
    case UndefinedBehaviour
    with 2 show ?thesis by simp
  qed
qed

lemma readFiles_identifier:
  "readFiles env st files = Some st' \<Longrightarrow> satelliteIdentifier st \<noteq> [] \<Longrightarrow>
   satelliteIdentifier st' = satelliteIdentifier st"
proof (induction env st files rule: readFiles.induct)
  case (1 env st)
  then show ?case by simp
next
  case (2 env st name ls files)
  show ?case
  proof (cases "scan env (beginFile st name) ls")
    case (Completed s)
    with 2 scan_identifier [of env "beginFile st name" ls s] show ?thesis
      by (simp add: beginFile_def)
  next
    case (Aborted s)
    with 2 scan_identifier [of env "beginFile st name" ls s] show ?thesis
      by (auto simp: beginFile_def)
  next
    case Undefined
    with 2 show ?thesis by simp
  qed
qed

lemma linesRead_identifier_unset:
  "linesRead env st ls = Some st' \<Longrightarrow> satelliteIdentifier st = [] \<Longrightarrow>
   \<forall>l \<in> set ls. startsWith l ''+'' \<longrightarrow> (\<exists>n. getInt env l 3 3 = Some n \<and> n \<le> 0) \<Longrightarrow>
   satelliteIdentifier st' = []"
proof (induction env st ls rule: linesRead.induct)
  case (1 env st)
  then show ?case by simp
next
  case (2 env st line rest)
  show ?case
  proof (cases "processLine env st line")
    case (Proceed s)
    with 2 processLine_identifier [of env st line s] show ?thesis by fastforce
  next
    case (SkipNext s)
    with 2 processLine_identifier [of env st line s] show ?thesis
      by (cases rest) fastforce+
  qed (use 2 in simp_all)
qed

lemma satelliteListLine_resolves:
  assumes "startsWith line ''+''" and "satelliteIdentifier st = []"
    and "getInt env line 3 3 = Some n" and "0 < n" and "substr line 9 3 = Some sid"
  shows "processLine env st line = Proceed (st\<lparr>satelliteIdentifier := sid\<rparr>)"
  using assms by (simp add: processLine_satelliteList satelliteListLine_def)

lemma writeSingle_warning:
  "logWarning (NoDataFound k) \<in> set (writeSingle env st)
     \<longleftrightarrow> k = satelliteIdentifier st \<and> arcAt (orbits st) (satelliteIdentifier st) = []"
  by (simp add: writeSingle_def Let_def)

lemma writeSingle_orbit:
  "writeOrbit f orbit \<in> set (writeSingle env st)
     \<longleftrightarrow> f = fileNameOrbit env \<and> f \<noteq> []
         \<and> orbit = arcAt (orbits st) (satelliteIdentifier st) \<and> orbit \<noteq> []"
  by (simp add: writeSingle_def Let_def) auto

lemma writeSingle_statistics:
  "printStatistics orbit \<in> set (writeSingle env st)
     \<longleftrightarrow> fileNameOrbit env \<noteq> []
         \<and> orbit = arcAt (orbits st) (satelliteIdentifier st) \<and> orbit \<noteq> []"
  by (simp add: writeSingle_def Let_def) auto

lemma writeSingle_clock:
  "writeClock f clock \<in> set (writeSingle env st)
     \<longleftrightarrow> f = fileNameClock env \<and> f \<noteq> []
         \<and> clock = arcAt (clocks st) (satelliteIdentifier st) \<and> clock \<noteq> []"
  by (simp add: writeSingle_def Let_def) auto

lemma writeSingle_covariance:
  "writeCovariance f cov \<in> set (writeSingle env st)
     \<longleftrightarrow> f = fileNameCov env \<and> f \<noteq> []
         \<and> cov = arcAt (covs st) (satelliteIdentifier st) \<and> cov \<noteq> []"
  by (simp add: writeSingle_def Let_def) auto

lemma sampleOtherPosition_fields:
  "positionFields sampleEnv sampleOtherPositionLine = Some (5, 6, 7, 8)"
  by (simp add: sampleOtherPositionLine_def positionFields_def getDouble_def substr_def
      sampleEnv_def sampleToDouble_def sampleToInt_def digitOf_def)

lemma sampleOtherPosition_starts: "startsWith sampleOtherPositionLine ''P''"
  by (simp add: sampleOtherPositionLine_def startsWith_def)

lemma sampleOtherPosition_id: "lineSatId sampleOtherPositionLine = ''L02''"
  by (simp add: sampleOtherPositionLine_def lineSatId_def)

lemma sampleOtherPosition_processed:
  "processLine sampleEnv st sampleOtherPositionLine
     = Proceed (st\<lparr>satId := ''L02'',
          orbits := push_back (orbits st) ''L02''
            \<lparr>time = curTime st,
             position = rotateVector (rotation st)
               (vminus (Vector3d 5000 6000 7000) (cm2ceCorrection st)),
             velocity = zeroVector, acceleration = zeroVector\<rparr>,
          clocks := push_back (clocks st) ''L02'' \<lparr>time = curTime st, miscValue = 8 / 10 ^ 6\<rparr>\<rparr>)"
  by (simp add: positionBlock_fields [OF sampleOtherPosition_starts sampleOtherPosition_fields]
      sampleOtherPosition_id storeClock_def storePosition_def scale_def vector_r_def)

lemma sampleTwo_read:
  "readFiles sampleEnv (initialState sampleEnv) [(''in.sp3'', sampleTwoSatellites)]
     = Some (sampleTwoState ''L01'')"
  by (simp add: sampleTwoSatellites_def beginFile_def initialState_def sampleEnv_config
      sampleSatelliteList_read sampleEpoch_processed samplePosition_processed
      sampleOtherPosition_processed)
    (simp add: sampleTwoState_def push_back_def setArc_def arcAt_def rotate_identity vminus_def)

lemma sampleTwo_read_all:
  "readFiles sampleEnv ((initialState sampleEnv)\<lparr>satelliteIdentifier := ''<all>''\<rparr>)
     [(''in.sp3'', sampleTwoSatellites)]
     = Some (sampleTwoState ''<all>'')"
  by (simp add: sampleTwoSatellites_def beginFile_def initialState_def sampleEnv_config
      processLine_satelliteList satelliteListLine_def startsWith_def sampleSatelliteListLine_def
      sampleEpoch_processed samplePosition_processed sampleOtherPosition_processed)
    (simp add: sampleTwoState_def push_back_def setArc_def arcAt_def rotate_identity vminus_def)

lemma sampleTwo_arcs:
  "arcAt (orbits (sampleTwoState ident)) ''L01''
     = [\<lparr>time = 172805,
         position = Vector3d (3000 - 4 * sqrt 3) (4000 - 6 * sqrt 3) (- (2 * sqrt 3)),
         velocity = zeroVector, acceleration = zeroVector\<rparr>]"
  "arcAt (orbits (sampleTwoState ident)) ''L02''
     = [\<lparr>time = 172805,
         position = Vector3d (5000 - 4 * sqrt 3) (6000 - 6 * sqrt 3) (7000 - 2 * sqrt 3),
         velocity = zeroVector, acceleration = zeroVector\<rparr>]"
  "arcAt (clocks (sampleTwoState ident)) ''L01'' = [\<lparr>time = 172805, miscValue = 7 / 10 ^ 6\<rparr>]"
  "arcAt (clocks (sampleTwoState ident)) ''L02'' = [\<lparr>time = 172805, miscValue = 8 / 10 ^ 6\<rparr>]"
  "arcAt (covs (sampleTwoState ident)) k = []"
  "satelliteIdentifier (sampleTwoState ident) = ident"
  by (simp_all add: sampleTwoState_def arcAt_def)

lemma sampleNegativeCount_read:
  "satelliteIdentifier st = [] \<Longrightarrow> processLine sampleEnv st sampleNegativeCountLine = Proceed st"
  by (simp add: processLine_satelliteList satelliteListLine_def startsWith_def getInt_def
      substr_def sampleNegativeCountLine_def sampleEnv_def sampleToInt_def digitOf_def)

lemma writeSingle_order:
  assumes "writeOrbit f orbit \<in> set (writeSingle env st)"
  shows "\<exists>post. writeSingle env st
             = [logStatus (WriteOrbitData f), writeOrbit f orbit, printStatistics orbit] @ post
           \<and> printStatistics orbit \<notin> set post \<and> writeOrbit f orbit \<notin> set post"
proof -
  from assms have "f = fileNameOrbit env" "fileNameOrbit env \<noteq> []"
    "orbit = arcAt (orbits st) (satelliteIdentifier st)"
    "arcAt (orbits st) (satelliteIdentifier st) \<noteq> []"
    by (auto simp: writeSingle_orbit)
  then show ?thesis
    by (simp add: writeSingle_def Let_def)
qed

lemma substr_length: "substr s pos n = Some t \<Longrightarrow> length t \<le> n"
  by (auto simp: substr_def split: if_splits)

lemma processLine_identifier_length:
  assumes "flowState (processLine env st line) = Some st'"
    and "length (satelliteIdentifier st) \<le> 3"
  shows "length (satelliteIdentifier st') \<le> 3"
  using processLine_identifier [OF assms(1)] assms(2) substr_length [of line 9 3]
  by auto

lemma scan_identifier_length:
  "scan env st ls = Completed st' \<or> scan env st ls = Aborted st' \<Longrightarrow>
   length (satelliteIdentifier st) \<le> 3 \<Longrightarrow> length (satelliteIdentifier st') \<le> 3"
proof (induction env st ls rule: scan.induct)
  case (1 env st)
  then show ?case by simp
next
  case (2 env st line rest)
  show ?case
  proof (cases "processLine env st line")
    case (Proceed s)
    with 2 processLine_identifier_length [of env st line s] show ?thesis by auto
  next
    case (SkipNext s)
    with 2 processLine_identifier_length [of env st line s] show ?thesis
      by (cases rest) auto
  next
    case (Break s)
    with 2 processLine_identifier_length [of env st line s] show ?thesis by auto
  next
    case (Throw s)
    with 2 processLine_identifier_length [of env st line s] show ?thesis by auto
  next
    case UndefinedBehaviour
    with 2 show ?thesis by simp
  qed
qed

lemma readFiles_identifier_length:
  "readFiles env st files = Some st' \<Longrightarrow> length (satelliteIdentifier st) \<le> 3 \<Longrightarrow>
   length (satelliteIdentifier st') \<le> 3"
proof (induction env st files rule: readFiles.induct)
  case (1 env st)
  then show ?case by simp
next
  case (2 env st name ls files)
  show ?case
  proof (cases "scan env (beginFile st name) ls")
    case (Completed s)
    with 2 scan_identifier_length [of env "beginFile st name" ls s] show ?thesis
      by (simp add: beginFile_def)
  next
    case (Aborted s)
    with 2 scan_identifier_length [of env "beginFile st name" ls s] show ?thesis
      by (auto simp: beginFile_def)
  next
    case Undefined
    with 2 show ?thesis by simp
  qed
qed

lemma readFiles_single:
  assumes "configIdentifier env \<noteq> ''<all>''"
    and "readFiles env (initialState env) files = Some st"
  shows "satelliteIdentifier st \<noteq> ''<all>''"
proof (cases "configIdentifier env = []")
  case True
  then have "length (satelliteIdentifier (initialState env)) \<le> 3"
    by (simp add: initialState_def)
  from readFiles_identifier_length [OF assms(2) this] show ?thesis
    by auto
next
  case False
  then have "satelliteIdentifier (initialState env) \<noteq> []"
    by (simp add: initialState_def)
  from readFiles_identifier [OF assms(2) this] assms(1) show ?thesis
    by (simp add: initialState_def)
qed

text \<open>
  Claim C8, as stated, fails in two places. The warning: in a run with the clock file
  configured, the identifier resolved to L01 and a position line of L01 whose clock field
  is the sentinel 999999, no clock record exists for L01; the clock file is skipped, but
  no warning is logged. The warning depends on the orbit sequence alone. The count: a
  satellite list line with the count -1, which is not zero, does not set the identifier;
  it stays empty, and the run ends with the warning for the empty identifier and writes
  nothing of the satellite L01 that the line lists first.
\<close>

theorem single_output_differs:
  "run sampleEnv [(''in.sp3'', [sampleSatelliteListLine, sampleNoClockLine])]
     = Some [logStatus (ReadFile ''in.sp3''),
             logStatus (WriteOrbitData ''orbit''),
             writeOrbit ''orbit''
               [\<lparr>time = defaultTime, position = Vector3d 3000 4000 0,
                 velocity = zeroVector, acceleration = zeroVector\<rparr>],
             printStatistics
               [\<lparr>time = defaultTime, position = Vector3d 3000 4000 0,
                 velocity = zeroVector, acceleration = zeroVector\<rparr>]]
   \<and> fileNameClock sampleEnv = ''clock''
   \<and> getInt sampleEnv sampleNegativeCountLine 3 3 = Some (- 1)
   \<and> substr sampleNegativeCountLine 9 3 = Some ''L01''
   \<and> run sampleEnv [(''in.sp3'', [sampleNegativeCountLine, samplePositionLine])]
       = Some [logStatus (ReadFile ''in.sp3''), logWarning (NoDataFound [])]"
proof -
  have clock: "run sampleEnv [(''in.sp3'', [sampleSatelliteListLine, sampleNoClockLine])]
     = Some [logStatus (ReadFile ''in.sp3''),
             logStatus (WriteOrbitData ''orbit''),
             writeOrbit ''orbit''
               [\<lparr>time = defaultTime, position = Vector3d 3000 4000 0,
                 velocity = zeroVector, acceleration = zeroVector\<rparr>],
             printStatistics
               [\<lparr>time = defaultTime, position = Vector3d 3000 4000 0,
                 velocity = zeroVector, acceleration = zeroVector\<rparr>]]"
    by (simp add: run_def beginFile_def initialState_def sampleEnv_config
        sampleSatelliteList_read sampleNoClock_processed)
      (simp add: writeResults_def writeSingle_def push_back_def setArc_def arcAt_def
        rotate_identity vminus_zero sampleEnv_config)
  have count: "getInt sampleEnv sampleNegativeCountLine 3 3 = Some (- 1)"
    "substr sampleNegativeCountLine 9 3 = Some ''L01''"
    by (simp_all add: getInt_def substr_def sampleNegativeCountLine_def sampleEnv_def
        sampleToInt_def digitOf_def)
  have unset: "run sampleEnv [(''in.sp3'', [sampleNegativeCountLine, samplePositionLine])]
       = Some [logStatus (ReadFile ''in.sp3''), logWarning (NoDataFound [])]"
    by (simp add: run_def beginFile_def initialState_def sampleEnv_config
        sampleNegativeCount_read samplePosition_processed)
      (simp add: writeResults_def writeSingle_def push_back_def setArc_def arcAt_def
        sampleEnv_config)
  from clock count unset show ?thesis
    by (simp add: sampleEnv_config)
qed

text \<open>
  Claim C8, amended. In the case of a single satellite (the identifier is not \<open><all>\<close>),
  the output part logs the warning exactly when the orbit arc of the identifier is
  empty; it writes the orbit arc of the identifier, and nothing else as orbit, exactly
  when the orbit path is set and that arc is not empty, and prints the statistics exactly
  when it writes the orbit, as the next thing after that write; it writes the clock arc
  of the identifier exactly when the clock path is set and that arc is not empty, with or
  without a warning, and the same for the covariance. The events come in the order
  warning, orbit (message, write, statistics), clock, covariance. While the identifier
  is empty, a satellite list line with a count above zero sets it to the three characters
  in columns 9 to 11; before that, lines other than such lines leave it empty; once it is
  not empty no line of any file changes it. A run configured with an identifier other
  than \<open><all>\<close> reaches the output part in this case, whatever the files hold.
\<close>

theorem single_satellite_output:
  assumes "satelliteIdentifier st \<noteq> ''<all>''"
  shows "(logWarning (NoDataFound k) \<in> set (writeResults env st)
            \<longleftrightarrow> k = satelliteIdentifier st \<and> arcAt (orbits st) (satelliteIdentifier st) = [])
    \<and> (writeOrbit f orbit \<in> set (writeResults env st)
            \<longleftrightarrow> f = fileNameOrbit env \<and> f \<noteq> []
                \<and> orbit = arcAt (orbits st) (satelliteIdentifier st) \<and> orbit \<noteq> [])
    \<and> (printStatistics orbit \<in> set (writeResults env st)
            \<longleftrightarrow> writeOrbit (fileNameOrbit env) orbit \<in> set (writeResults env st))
    \<and> (writeOrbit f orbit \<in> set (writeResults env st)
          \<longrightarrow> (\<exists>post. writeResults env st
                   = [logStatus (WriteOrbitData f), writeOrbit f orbit, printStatistics orbit]
                     @ post
                 \<and> printStatistics orbit \<notin> set post \<and> writeOrbit f orbit \<notin> set post))
    \<and> (writeClock f clock \<in> set (writeResults env st)
            \<longleftrightarrow> f = fileNameClock env \<and> f \<noteq> []
                \<and> clock = arcAt (clocks st) (satelliteIdentifier st) \<and> clock \<noteq> [])
    \<and> (writeCovariance f cov \<in> set (writeResults env st)
            \<longleftrightarrow> f = fileNameCov env \<and> f \<noteq> []
                \<and> cov = arcAt (covs st) (satelliteIdentifier st) \<and> cov \<noteq> [])
    \<and> writeResults env st
        = (if arcAt (orbits st) (satelliteIdentifier st) = []
           then [logWarning (NoDataFound (satelliteIdentifier st))] else [])
          @ (if fileNameOrbit env \<noteq> [] \<and> arcAt (orbits st) (satelliteIdentifier st) \<noteq> []
             then [logStatus (WriteOrbitData (fileNameOrbit env)),
                   writeOrbit (fileNameOrbit env) (arcAt (orbits st) (satelliteIdentifier st)),
                   printStatistics (arcAt (orbits st) (satelliteIdentifier st))]
             else [])
          @ (if fileNameClock env \<noteq> [] \<and> arcAt (clocks st) (satelliteIdentifier st) \<noteq> []
             then [logStatus (WriteClockData (fileNameClock env)),
                   writeClock (fileNameClock env) (arcAt (clocks st) (satelliteIdentifier st))]
             else [])
          @ (if fileNameCov env \<noteq> [] \<and> arcAt (covs st) (satelliteIdentifier st) \<noteq> []
             then [logStatus (WriteCovarianceData (fileNameCov env)),
                   writeCovariance (fileNameCov env) (arcAt (covs st) (satelliteIdentifier st))]
             else [])
    \<and> (\<forall>st0 line n sid.
          startsWith line ''+'' \<and> satelliteIdentifier st0 = []
          \<and> getInt env line 3 3 = Some n \<and> 0 < n \<and> substr line 9 3 = Some sid
          \<longrightarrow> processLine env st0 line = Proceed (st0\<lparr>satelliteIdentifier := sid\<rparr>))
    \<and> (\<forall>st0 before st1.
          satelliteIdentifier st0 = []
          \<and> (\<forall>l \<in> set before. startsWith l ''+'' \<longrightarrow> (\<exists>n. getInt env l 3 3 = Some n \<and> n \<le> 0))
          \<and> linesRead env st0 before = Some st1
          \<longrightarrow> satelliteIdentifier st1 = [])
    \<and> (\<forall>st0 files st1.
          satelliteIdentifier st0 \<noteq> [] \<and> readFiles env st0 files = Some st1
          \<longrightarrow> satelliteIdentifier st1 = satelliteIdentifier st0)
    \<and> (\<forall>files st1.
          configIdentifier env \<noteq> ''<all>'' \<and> readFiles env (initialState env) files = Some st1
          \<longrightarrow> satelliteIdentifier st1 \<noteq> ''<all>'')"
proof -
  have single: "writeResults env st = writeSingle env st"
    using assms by (simp add: writeResults_def)
  have statistics: "printStatistics orbit \<in> set (writeSingle env st)
      \<longleftrightarrow> writeOrbit (fileNameOrbit env) orbit \<in> set (writeSingle env st)"
    unfolding writeSingle_statistics writeSingle_orbit by blast
  have order: "\<exists>post. writeSingle env st
             = [logStatus (WriteOrbitData f), writeOrbit f orbit, printStatistics orbit] @ post
           \<and> printStatistics orbit \<notin> set post \<and> writeOrbit f orbit \<notin> set post"
    if "writeOrbit f orbit \<in> set (writeSingle env st)"
    using that by (rule writeSingle_order)
  have sequence: "writeSingle env st
        = (if arcAt (orbits st) (satelliteIdentifier st) = []
           then [logWarning (NoDataFound (satelliteIdentifier st))] else [])
          @ (if fileNameOrbit env \<noteq> [] \<and> arcAt (orbits st) (satelliteIdentifier st) \<noteq> []
             then [logStatus (WriteOrbitData (fileNameOrbit env)),
                   writeOrbit (fileNameOrbit env) (arcAt (orbits st) (satelliteIdentifier st)),
                   printStatistics (arcAt (orbits st) (satelliteIdentifier st))]
             else [])
          @ (if fileNameClock env \<noteq> [] \<and> arcAt (clocks st) (satelliteIdentifier st) \<noteq> []
             then [logStatus (WriteClockData (fileNameClock env)),
                   writeClock (fileNameClock env) (arcAt (clocks st) (satelliteIdentifier st))]
             else [])
          @ (if fileNameCov env \<noteq> [] \<and> arcAt (covs st) (satelliteIdentifier st) \<noteq> []
             then [logStatus (WriteCovarianceData (fileNameCov env)),
                   writeCovariance (fileNameCov env) (arcAt (covs st) (satelliteIdentifier st))]
             else [])"
    unfolding writeSingle_def Let_def by (rule refl)
  have resolved: "processLine env st0 line = Proceed (st0\<lparr>satelliteIdentifier := sid\<rparr>)"
    if "startsWith line ''+'' \<and> satelliteIdentifier st0 = []
          \<and> getInt env line 3 3 = Some n \<and> 0 < n \<and> substr line 9 3 = Some sid"
    for st0 line n sid
    using that satelliteListLine_resolves by blast
  have unset: "satelliteIdentifier st1 = []"
    if "satelliteIdentifier st0 = []
          \<and> (\<forall>l \<in> set before. startsWith l ''+'' \<longrightarrow> (\<exists>n. getInt env l 3 3 = Some n \<and> n \<le> 0))
          \<and> linesRead env st0 before = Some st1"
    for st0 before st1
    using that linesRead_identifier_unset by blast
  have kept: "satelliteIdentifier st1 = satelliteIdentifier st0"
    if "satelliteIdentifier st0 \<noteq> [] \<and> readFiles env st0 files = Some st1"
    for st0 files st1
    using that readFiles_identifier by blast
  have members: "(logWarning (NoDataFound k) \<in> set (writeSingle env st)
            \<longleftrightarrow> k = satelliteIdentifier st \<and> arcAt (orbits st) (satelliteIdentifier st) = [])"
    "(writeOrbit f orbit \<in> set (writeSingle env st)
            \<longleftrightarrow> f = fileNameOrbit env \<and> f \<noteq> []
                \<and> orbit = arcAt (orbits st) (satelliteIdentifier st) \<and> orbit \<noteq> [])"
    "(writeClock f clock \<in> set (writeSingle env st)
            \<longleftrightarrow> f = fileNameClock env \<and> f \<noteq> []
                \<and> clock = arcAt (clocks st) (satelliteIdentifier st) \<and> clock \<noteq> [])"
    "(writeCovariance f cov \<in> set (writeSingle env st)
            \<longleftrightarrow> f = fileNameCov env \<and> f \<noteq> []
                \<and> cov = arcAt (covs st) (satelliteIdentifier st) \<and> cov \<noteq> [])"
    by (rule writeSingle_warning writeSingle_orbit writeSingle_clock writeSingle_covariance)+
  have resolution: "(\<forall>st0 line n sid.
          startsWith line ''+'' \<and> satelliteIdentifier st0 = []
          \<and> getInt env line 3 3 = Some n \<and> 0 < n \<and> substr line 9 3 = Some sid
          \<longrightarrow> processLine env st0 line = Proceed (st0\<lparr>satelliteIdentifier := sid\<rparr>))"
    "(\<forall>st0 before st1.
          satelliteIdentifier st0 = []
          \<and> (\<forall>l \<in> set before. startsWith l ''+'' \<longrightarrow> (\<exists>n. getInt env l 3 3 = Some n \<and> n \<le> 0))
          \<and> linesRead env st0 before = Some st1
          \<longrightarrow> satelliteIdentifier st1 = [])"
    "(\<forall>st0 files st1.
          satelliteIdentifier st0 \<noteq> [] \<and> readFiles env st0 files = Some st1
          \<longrightarrow> satelliteIdentifier st1 = satelliteIdentifier st0)"
    "(\<forall>files st1.
          configIdentifier env \<noteq> ''<all>'' \<and> readFiles env (initialState env) files = Some st1
          \<longrightarrow> satelliteIdentifier st1 \<noteq> ''<all>'')"
    using resolved unset kept readFiles_single by blast+
  have ordered: "writeOrbit f orbit \<in> set (writeSingle env st)
          \<longrightarrow> (\<exists>post. writeSingle env st
                   = [logStatus (WriteOrbitData f), writeOrbit f orbit, printStatistics orbit]
                     @ post
                 \<and> printStatistics orbit \<notin> set post \<and> writeOrbit f orbit \<notin> set post)"
    using order by (rule impI)
  show ?thesis
    unfolding single
    by (intro conjI)
      (rule members(1), rule members(2), rule statistics, rule ordered, rule members(3),
        rule members(4), rule sequence, rule resolution(1), rule resolution(2),
        rule resolution(3), rule resolution(4))
qed

text \<open>The file with the satellites L01 and L02 and no identifier configured: the
  identifier becomes L01, the orbit and the clock of L01 are written in this order, with
  the statistics after the orbit, and nothing of L02.\<close>

theorem single_satellite_output_witness:
  "readFiles sampleEnv (initialState sampleEnv) [(''in.sp3'', sampleTwoSatellites)]
     = Some (sampleTwoState ''L01'')
   \<and> writeOrbit ''orbit'' (arcAt (orbits (sampleTwoState ''L01'')) ''L01'')
       \<in> set (writeResults sampleEnv (sampleTwoState ''L01''))
   \<and> writeOrbit ''orbit'' (arcAt (orbits (sampleTwoState ''L01'')) ''L02'')
       \<notin> set (writeResults sampleEnv (sampleTwoState ''L01''))
   \<and> printStatistics (arcAt (orbits (sampleTwoState ''L01'')) ''L01'')
       \<in> set (writeResults sampleEnv (sampleTwoState ''L01''))
   \<and> writeClock ''clock'' (arcAt (clocks (sampleTwoState ''L01'')) ''L01'')
       \<in> set (writeResults sampleEnv (sampleTwoState ''L01''))
   \<and> writeCovariance ''cov'' [] \<notin> set (writeResults sampleEnv (sampleTwoState ''L01''))
   \<and> logWarning (NoDataFound ''L01'') \<notin> set (writeResults sampleEnv (sampleTwoState ''L01''))
   \<and> writeResults sampleEnv (sampleTwoState ''L01'')
       = [logStatus (WriteOrbitData ''orbit''),
          writeOrbit ''orbit'' (arcAt (orbits (sampleTwoState ''L01'')) ''L01''),
          printStatistics (arcAt (orbits (sampleTwoState ''L01'')) ''L01''),
          logStatus (WriteClockData ''clock''),
          writeClock ''clock'' (arcAt (clocks (sampleTwoState ''L01'')) ''L01'')]
   \<and> processLine sampleEnv (initialState sampleEnv) sampleSatelliteListLine
       = Proceed ((initialState sampleEnv)\<lparr>satelliteIdentifier := ''L01''\<rparr>)"
proof -
  have single: "satelliteIdentifier (sampleTwoState ''L01'') \<noteq> ''<all>''"
    by (simp add: sampleTwo_arcs)
  have count: "getInt sampleEnv sampleSatelliteListLine 3 3 = Some 2"
    "substr sampleSatelliteListLine 9 3 = Some ''L01''"
    "startsWith sampleSatelliteListLine ''+''"
    "satelliteIdentifier (initialState sampleEnv) = []"
    by (simp_all add: getInt_def substr_def startsWith_def sampleSatelliteListLine_def
        sampleEnv_def sampleToInt_def digitOf_def initialState_def)
  note orbit = single_satellite_output [OF single, where env = sampleEnv and f = "''orbit''"
      and k = "''L01''" and orbit = "arcAt (orbits (sampleTwoState ''L01'')) ''L01''"]
  note other_orbit = single_satellite_output [OF single, where env = sampleEnv
      and f = "''orbit''" and orbit = "arcAt (orbits (sampleTwoState ''L01'')) ''L02''"]
  note clock = single_satellite_output [OF single, where env = sampleEnv and f = "''clock''"
      and clock = "arcAt (clocks (sampleTwoState ''L01'')) ''L01''"]
  note cov = single_satellite_output [OF single, where env = sampleEnv and f = "''cov''"
      and cov = "[]"]
  have written: "writeOrbit ''orbit'' (arcAt (orbits (sampleTwoState ''L01'')) ''L01'')
       \<in> set (writeResults sampleEnv (sampleTwoState ''L01''))"
    "printStatistics (arcAt (orbits (sampleTwoState ''L01'')) ''L01'')
       \<in> set (writeResults sampleEnv (sampleTwoState ''L01''))"
    "logWarning (NoDataFound ''L01'') \<notin> set (writeResults sampleEnv (sampleTwoState ''L01''))"
    using orbit [THEN conjunct1] orbit [THEN conjunct2, THEN conjunct1]
      orbit [THEN conjunct2, THEN conjunct2, THEN conjunct1]
    by (simp_all add: sampleTwo_arcs sampleEnv_config)
  have written_clock: "writeClock ''clock'' (arcAt (clocks (sampleTwoState ''L01'')) ''L01'')
       \<in> set (writeResults sampleEnv (sampleTwoState ''L01''))"
    using clock [THEN conjunct2, THEN conjunct2, THEN conjunct2, THEN conjunct2, THEN conjunct1]
    by (simp add: sampleTwo_arcs sampleEnv_config)
  have no_cov:
    "writeCovariance ''cov'' [] \<notin> set (writeResults sampleEnv (sampleTwoState ''L01''))"
    using cov [THEN conjunct2, THEN conjunct2, THEN conjunct2, THEN conjunct2, THEN conjunct2,
        THEN conjunct1]
    by simp
  have other: "writeOrbit ''orbit'' (arcAt (orbits (sampleTwoState ''L01'')) ''L02'')
       \<notin> set (writeResults sampleEnv (sampleTwoState ''L01''))"
    using other_orbit [THEN conjunct2, THEN conjunct1]
    by (simp add: sampleTwo_arcs sampleEnv_config)
  have sequence: "writeResults sampleEnv (sampleTwoState ''L01'')
       = [logStatus (WriteOrbitData ''orbit''),
          writeOrbit ''orbit'' (arcAt (orbits (sampleTwoState ''L01'')) ''L01''),
          printStatistics (arcAt (orbits (sampleTwoState ''L01'')) ''L01''),
          logStatus (WriteClockData ''clock''),
          writeClock ''clock'' (arcAt (clocks (sampleTwoState ''L01'')) ''L01'')]"
    using orbit [THEN conjunct2, THEN conjunct2, THEN conjunct2, THEN conjunct2, THEN conjunct2,
        THEN conjunct2, THEN conjunct1]
    by (simp add: sampleTwo_arcs sampleEnv_config)
  note resolution = orbit [THEN conjunct2, THEN conjunct2, THEN conjunct2, THEN conjunct2,
      THEN conjunct2, THEN conjunct2, THEN conjunct2, THEN conjunct1, rule_format]
  have resolved: "processLine sampleEnv (initialState sampleEnv) sampleSatelliteListLine
       = Proceed ((initialState sampleEnv)\<lparr>satelliteIdentifier := ''L01''\<rparr>)"
    by (rule resolution [where n = 2]) (simp add: count)
  from sampleTwo_read written written_clock no_cov other sequence resolved show ?thesis
    by (intro conjI) assumption+
qed

subsection \<open>The output of all satellites\<close>

lemma keysOf_set: "set (keysOf m) = fst ` set m"
  by (simp add: keysOf_def)

lemma arcAt_key: "arcAt m k \<noteq> [] \<Longrightarrow> k \<in> set (keysOf m)"
  by (auto simp: arcAt_def keysOf_set split: option.splits dest: map_of_SomeD intro: rev_image_eqI)

lemma writeAllOrbits_events:
  "e \<in> set (writeAllOrbits env m) \<longleftrightarrow>
     fileNameOrbit env \<noteq> []
     \<and> (\<exists>k. arcAt m k \<noteq> []
           \<and> (e = logStatus (WriteOrbitData (appendBaseName env (fileNameOrbit env) (''.'' @ k)))
              \<or> e = writeOrbit (appendBaseName env (fileNameOrbit env) (''.'' @ k)) (arcAt m k)))"
  using arcAt_key [of m] by (auto simp: writeAllOrbits_def split: if_splits)

lemma writeAllClocks_events:
  "e \<in> set (writeAllClocks env m) \<longleftrightarrow>
     fileNameClock env \<noteq> []
     \<and> (\<exists>k. arcAt m k \<noteq> []
           \<and> (e = logStatus (WriteClockData (appendBaseName env (fileNameClock env) (''.'' @ k)))
              \<or> e = writeClock (appendBaseName env (fileNameClock env) (''.'' @ k)) (arcAt m k)))"
  using arcAt_key [of m] by (auto simp: writeAllClocks_def split: if_splits)

lemma writeAllCovs_events:
  "e \<in> set (writeAllCovs env m) \<longleftrightarrow>
     fileNameCov env \<noteq> []
     \<and> (\<exists>k. arcAt m k \<noteq> []
           \<and> (e = logStatus (WriteCovarianceData
                                (appendBaseName env (fileNameCov env) (''.'' @ k)))
              \<or> e = writeCovariance (appendBaseName env (fileNameCov env) (''.'' @ k))
                     (arcAt m k)))"
  using arcAt_key [of m] by (auto simp: writeAllCovs_def split: if_splits)

text \<open>
  Claim C9. In the case \<open><all>\<close>, an orbit arc is written exactly when the orbit path is
  set and the arc is the non-empty arc of some identifier \<open>k\<close>, and then to the path
  \<open>appendBaseName(path, "." + k)\<close>; the same holds, each on its own path and map, for the
  clock arcs and the covariance arcs. No warning of missing data is logged and no
  statistics are printed.
\<close>

theorem all_satellites_output:
  assumes "satelliteIdentifier st = ''<all>''"
  shows "(writeOrbit f orbit \<in> set (writeResults env st)
            \<longleftrightarrow> fileNameOrbit env \<noteq> []
                \<and> (\<exists>k. orbit = arcAt (orbits st) k \<and> orbit \<noteq> []
                       \<and> f = appendBaseName env (fileNameOrbit env) (''.'' @ k)))
    \<and> (writeClock f clock \<in> set (writeResults env st)
            \<longleftrightarrow> fileNameClock env \<noteq> []
                \<and> (\<exists>k. clock = arcAt (clocks st) k \<and> clock \<noteq> []
                       \<and> f = appendBaseName env (fileNameClock env) (''.'' @ k)))
    \<and> (writeCovariance f cov \<in> set (writeResults env st)
            \<longleftrightarrow> fileNameCov env \<noteq> []
                \<and> (\<exists>k. cov = arcAt (covs st) k \<and> cov \<noteq> []
                       \<and> f = appendBaseName env (fileNameCov env) (''.'' @ k)))
    \<and> logWarning (NoDataFound k) \<notin> set (writeResults env st)
    \<and> printStatistics orbit \<notin> set (writeResults env st)"
proof -
  have all: "set (writeResults env st)
      = set (writeAllOrbits env (orbits st)) \<union> set (writeAllClocks env (clocks st))
        \<union> set (writeAllCovs env (covs st))"
    using assms by (simp add: writeResults_def Un_assoc)
  have orbit: "writeOrbit f orbit \<in> set (writeResults env st)
            \<longleftrightarrow> fileNameOrbit env \<noteq> []
                \<and> (\<exists>k. orbit = arcAt (orbits st) k \<and> orbit \<noteq> []
                       \<and> f = appendBaseName env (fileNameOrbit env) (''.'' @ k))"
    unfolding all Un_iff writeAllOrbits_events writeAllClocks_events writeAllCovs_events
    by auto
  have clock: "writeClock f clock \<in> set (writeResults env st)
            \<longleftrightarrow> fileNameClock env \<noteq> []
                \<and> (\<exists>k. clock = arcAt (clocks st) k \<and> clock \<noteq> []
                       \<and> f = appendBaseName env (fileNameClock env) (''.'' @ k))"
    unfolding all Un_iff writeAllOrbits_events writeAllClocks_events writeAllCovs_events
    by auto
  have cov: "writeCovariance f cov \<in> set (writeResults env st)
            \<longleftrightarrow> fileNameCov env \<noteq> []
                \<and> (\<exists>k. cov = arcAt (covs st) k \<and> cov \<noteq> []
                       \<and> f = appendBaseName env (fileNameCov env) (''.'' @ k))"
    unfolding all Un_iff writeAllOrbits_events writeAllClocks_events writeAllCovs_events
    by auto
  have none: "logWarning (NoDataFound k) \<notin> set (writeResults env st)"
    "printStatistics orbit \<notin> set (writeResults env st)"
    unfolding all Un_iff writeAllOrbits_events writeAllClocks_events writeAllCovs_events
    by simp_all
  from orbit clock cov none show ?thesis
    by (intro conjI) assumption+
qed

text \<open>The same file with the identifier \<open><all>\<close>: the orbits go to \<open>orbit.L01\<close> and
  \<open>orbit.L02\<close>, each with its own arc, the clocks likewise, and no covariance is written.\<close>

theorem all_satellites_output_witness:
  "readFiles sampleEnv ((initialState sampleEnv)\<lparr>satelliteIdentifier := ''<all>''\<rparr>)
     [(''in.sp3'', sampleTwoSatellites)]
     = Some (sampleTwoState ''<all>'')
   \<and> writeOrbit ''orbit.L01'' (arcAt (orbits (sampleTwoState ''<all>'')) ''L01'')
       \<in> set (writeResults sampleEnv (sampleTwoState ''<all>''))
   \<and> writeOrbit ''orbit.L02'' (arcAt (orbits (sampleTwoState ''<all>'')) ''L02'')
       \<in> set (writeResults sampleEnv (sampleTwoState ''<all>''))
   \<and> writeOrbit ''orbit.L02'' (arcAt (orbits (sampleTwoState ''<all>'')) ''L01'')
       \<notin> set (writeResults sampleEnv (sampleTwoState ''<all>''))
   \<and> writeClock ''clock.L02'' (arcAt (clocks (sampleTwoState ''<all>'')) ''L02'')
       \<in> set (writeResults sampleEnv (sampleTwoState ''<all>''))
   \<and> writeCovariance ''cov.L01'' [] \<notin> set (writeResults sampleEnv (sampleTwoState ''<all>''))
   \<and> map (\<lambda>k. appendBaseName sampleEnv (fileNameOrbit sampleEnv) (''.'' @ k))
         (keysOf (orbits (sampleTwoState ''<all>'')))
       = [''orbit.L01'', ''orbit.L02'']"
proof -
  have all: "satelliteIdentifier (sampleTwoState ''<all>'') = ''<all>''"
    by (simp add: sampleTwo_arcs)
  have first: "writeOrbit ''orbit.L01'' (arcAt (orbits (sampleTwoState ''<all>'')) ''L01'')
       \<in> set (writeResults sampleEnv (sampleTwoState ''<all>''))"
    using all_satellites_output [OF all, where env = sampleEnv and f = "''orbit.L01''"
        and orbit = "arcAt (orbits (sampleTwoState ''<all>'')) ''L01''"]
    by (simp add: sampleEnv_config) (auto simp: sampleTwo_arcs intro: exI [of _ "''L01''"])
  have second: "writeOrbit ''orbit.L02'' (arcAt (orbits (sampleTwoState ''<all>'')) ''L02'')
       \<in> set (writeResults sampleEnv (sampleTwoState ''<all>''))"
    using all_satellites_output [OF all, where env = sampleEnv and f = "''orbit.L02''"
        and orbit = "arcAt (orbits (sampleTwoState ''<all>'')) ''L02''"]
    by (simp add: sampleEnv_config) (auto simp: sampleTwo_arcs intro: exI [of _ "''L02''"])
  have crossed: "writeOrbit ''orbit.L02'' (arcAt (orbits (sampleTwoState ''<all>'')) ''L01'')
       \<notin> set (writeResults sampleEnv (sampleTwoState ''<all>''))"
  proof -
    have "arcAt (orbits (sampleTwoState ''<all>'')) k \<noteq> arcAt (orbits (sampleTwoState ''<all>'')) ''L01''"
      if "''orbit.L02'' = ''orbit'' @ ''.'' @ k" for k
    proof -
      from that have "k = ''L02''" by simp
      then show ?thesis by (simp add: sampleTwo_arcs)
    qed
    with all_satellites_output [OF all, where env = sampleEnv and f = "''orbit.L02''"
        and orbit = "arcAt (orbits (sampleTwoState ''<all>'')) ''L01''"]
    show ?thesis
      by (auto simp: sampleEnv_config)
  qed
  have clock: "writeClock ''clock.L02'' (arcAt (clocks (sampleTwoState ''<all>'')) ''L02'')
       \<in> set (writeResults sampleEnv (sampleTwoState ''<all>''))"
    using all_satellites_output [OF all, where env = sampleEnv and f = "''clock.L02''"
        and clock = "arcAt (clocks (sampleTwoState ''<all>'')) ''L02''"]
    by (simp add: sampleEnv_config) (auto simp: sampleTwo_arcs intro: exI [of _ "''L02''"])
  have cov: "writeCovariance ''cov.L01'' [] \<notin> set (writeResults sampleEnv (sampleTwoState ''<all>''))"
    using all_satellites_output [OF all, where env = sampleEnv and f = "''cov.L01''"
        and cov = "[]"]
    by simp
  have paths: "map (\<lambda>k. appendBaseName sampleEnv (fileNameOrbit sampleEnv) (''.'' @ k))
         (keysOf (orbits (sampleTwoState ''<all>'')))
       = [''orbit.L01'', ''orbit.L02'']"
    by (simp add: sampleEnv_config keysOf_def sampleTwoState_def)
  from sampleTwo_read_all first second crossed clock cov paths show ?thesis
    by (intro conjI) assumption+
qed

end
